theory Spec2Isabelle
  imports Main "HOL-Library.Sublist"
begin

section \<open>Errors, JSON values and strings\<close>

text \<open>
  Every \<^verbatim>\<open>throw new Error(msg)\<close> of the sources is a value \<open>Error msg\<close>;
  a function that may throw returns \<open>error + 'a\<close> with \<open>Inl\<close> for the exception.
  The texts of exceptions raised by the shell, the file system and the container engine
  are not those of the real libraries; only the fact that they are raised is modelled.
\<close>

datatype error = Error string

fun message :: "error \<Rightarrow> string" where
  "message (Error m) = m"

text \<open>
  \<^verbatim>\<open>error.stack\<close>: the name and message of the exception; the stack frames that follow
  in JavaScript are left out.
\<close>

definition stack :: "error \<Rightarrow> string" where
  "stack e = ''Error: '' @ message e"

text \<open>
  A parsed JSON value. An object keeps its members in the order of the text; a member that
  is repeated takes the value of its last occurrence, as \<^verbatim>\<open>JSON.parse\<close> does. Only the
  kind of a number matters to the code modelled here, so numbers are integers.
\<close>

datatype json =
    JNull
  | JBool bool
  | JNum int
  | JStr string
  | JArr "json list"
  | JObj "(string \<times> json) list"

definition get_member :: "(string \<times> json) list \<Rightarrow> string \<Rightarrow> json option" where
  "get_member kvs k = map_of (rev kvs) k"

text \<open>An HTTP response: status code and JSON body.\<close>

datatype http_response = HttpResponse (statusCode: nat) (responseBody: json)

text \<open>\<^verbatim>\<open>String.prototype.includes\<close>: \<open>sub\<close> occurs somewhere in \<open>s\<close>.\<close>

fun includes_str :: "string \<Rightarrow> string \<Rightarrow> bool" where
  "includes_str [] sub = (sub = [])"
| "includes_str (c # cs) sub = (prefix sub (c # cs) \<or> includes_str cs sub)"

text \<open>The decimal text of a number, as a template literal prints it.\<close>

definition digit :: "nat \<Rightarrow> char" where
  "digit d = ''0123456789'' ! d"

function decimal :: "nat \<Rightarrow> string" where
  "decimal n = (if n < 10 then [digit n] else decimal (n div 10) @ [digit (n mod 10)])"
  by pat_completeness auto
termination
  by (relation "measure id") auto

declare decimal.simps [simp del]

section \<open>Paths and the file system\<close>

text \<open>The pieces of a string between the occurrences of a separator.\<close>

fun split_on :: "char \<Rightarrow> string \<Rightarrow> string list" where
  "split_on c [] = [[]]"
| "split_on c (x # xs) =
     (if x = c then [] # split_on c xs
      else (case split_on c xs of
              [] \<Rightarrow> [[x]]
            | s # ss \<Rightarrow> (x # s) # ss))"

text \<open>
  A normalised POSIX path: whether it starts at the root, and its components. This is the
  location a path string names; the file system below is keyed by it.
\<close>

datatype fspath = FsPath (isAbsolute: bool) (segments: "string list")

text \<open>
  Node's \<^verbatim>\<open>normalizeString(path, allowAboveRoot)\<close> on the components of a path, with
  the components kept so far in \<open>res\<close>, last one first: empty components and \<open>.\<close> are
  dropped; \<open>..\<close> removes the component before it, and where there is none (or it is
  itself \<open>..\<close>) it is kept when \<open>allowAboveRoot\<close> holds (a relative path) and dropped
  otherwise (an absolute path).
\<close>

fun normalizeString :: "bool \<Rightarrow> string list \<Rightarrow> string list \<Rightarrow> string list" where
  "normalizeString allowAboveRoot res [] = rev res"
| "normalizeString allowAboveRoot res (s # ss) =
     (if s = [] \<or> s = ''.'' then normalizeString allowAboveRoot res ss
      else if s = ''..'' then
        (case res of
           [] \<Rightarrow> normalizeString allowAboveRoot (if allowAboveRoot then [''..''] else []) ss
         | r # rs \<Rightarrow>
             (if r = ''..''
              then normalizeString allowAboveRoot (if allowAboveRoot then ''..'' # res else res) ss
              else normalizeString allowAboveRoot rs ss))
      else normalizeString allowAboveRoot (s # res) ss)"

text \<open>\<^verbatim>\<open>path.normalize(p)\<close>, as the location it names.\<close>

definition normalize :: "string \<Rightarrow> fspath" where
  "normalize p =
     (let absolute = (p \<noteq> [] \<and> hd p = CHR ''/'')
      in FsPath absolute (normalizeString (\<not> absolute) [] (split_on CHR ''/'' p)))"

text \<open>
  The string a call of \<^verbatim>\<open>path.join\<close> returns, as the location it names and whether it
  ends with a separator (\<^verbatim>\<open>path.join\<close> keeps one that its last argument ends with).
\<close>

datatype joined = Joined (location: fspath) (trailingSlash: bool)

text \<open>
  \<^verbatim>\<open>path.join(a, b)\<close>: the non-empty arguments joined by \<open>/\<close>, then normalised. An
  absolute second argument does not restart the path.
\<close>

definition path_join :: "string \<Rightarrow> string \<Rightarrow> joined" where
  "path_join a b =
     (let s = (if a = [] then b else if b = [] then a else a @ ''/'' @ b)
      in Joined (normalize s) (s \<noteq> [] \<and> last s = CHR ''/''))"

text \<open>\<^verbatim>\<open>path.dirname\<close> of a path, by locations; a trailing separator does not count.\<close>

definition dirname :: "fspath \<Rightarrow> fspath" where
  "dirname p = FsPath (isAbsolute p) (butlast (segments p))"

text \<open>\<^verbatim>\<open>Array.prototype.join\<close>.\<close>

fun join_with :: "string \<Rightarrow> string list \<Rightarrow> string" where
  "join_with sep [] = []"
| "join_with sep [x] = x"
| "join_with sep (x # y # ys) = x @ sep @ join_with sep (y # ys)"

text \<open>The normalised path string of a location.\<close>

definition render :: "fspath \<Rightarrow> string" where
  "render p =
     (if segments p = [] then (if isAbsolute p then ''/'' else ''.'')
      else (if isAbsolute p then ''/'' else []) @ join_with ''/'' (segments p))"

text \<open>\<open>p\<close> lies in the directory \<open>d\<close> or below it.\<close>

definition inside :: "fspath \<Rightarrow> fspath \<Rightarrow> bool" where
  "inside d p \<longleftrightarrow>
     isAbsolute p = isAbsolute d \<and> prefix (segments d) (segments p) \<and>
     ''..'' \<notin> set (drop (length (segments d)) (segments p))"

text \<open>
  The sources run \<^verbatim>\<open>mkdir\<close>, \<^verbatim>\<open>cp\<close> and \<^verbatim>\<open>rm\<close> through \<^verbatim>\<open>sh -c\<close>, with a path
  pasted into the command line. The model interprets a command only when the pasted text
  stands for itself: \<open>dq_plain\<close> for a text between double quotes (it has none of
  \<^verbatim>\<open>$\<close>, backquote, double quote, backslash and NUL), \<open>word_plain\<close> for a text that
  is not quoted (it has only letters, digits and \<^verbatim>\<open>/ . _ -\<close>); in both cases the text
  is not empty and does not start with \<^verbatim>\<open>-\<close>, which would make it an option. What the
  shell does with any other command line is left to the world (see \<open>shell\<close> below).
\<close>

definition dq_plain :: "string \<Rightarrow> bool" where
  "dq_plain s \<longleftrightarrow>
     s \<noteq> [] \<and> hd s \<noteq> CHR ''-'' \<and>
     list_all (\<lambda>c. c \<notin> set [CHR ''$'', CHR 0x60, CHR 0x22, CHR 0x5C, CHR 0x00]) s"

definition word_plain :: "string \<Rightarrow> bool" where
  "word_plain s \<longleftrightarrow>
     s \<noteq> [] \<and> hd s \<noteq> CHR ''-'' \<and>
     list_all (\<lambda>c. c \<in> set ''abcdefghijklmnopqrstuvwxyzABCDEFGHIJKLMNOPQRSTUVWXYZ0123456789/._-'') s"

text \<open>
  The file system: what is at each location. Symbolic links are not modelled.
\<close>

datatype node = Dir | File string

type_synonym filesystem = "fspath \<rightharpoonup> node"

fun is_file :: "node option \<Rightarrow> bool" where
  "is_file (Some (File c)) = True"
| "is_file _ = False"

text \<open>The effect of \<^verbatim>\<open>mkdir -p\<close> on a location: it fails where a component of the path
  is a file.\<close>

definition mkdir_p :: "fspath \<Rightarrow> filesystem \<Rightarrow> error + filesystem" where
  "mkdir_p p fs =
     (let ps = map (FsPath (isAbsolute p)) (prefixes (segments p))
      in if list_ex (\<lambda>q. is_file (fs q)) ps
         then Inl (Error ''Command failed: mkdir -p'')
         else Inr (\<lambda>q. if q \<in> set ps \<and> fs q = None then Some Dir else fs q))"

text \<open>
  The effect of \<^verbatim>\<open>cp -r "${templateDir}/"* "${dir}/"\<close>. The template tree is a
  parameter: the entries the glob matches and everything below them, by their path
  relative to the template directory. With nothing to match, \<^verbatim>\<open>cp\<close> fails.
\<close>

type_synonym template = "(string list \<times> node) list"

definition cp_r :: "template \<Rightarrow> fspath \<Rightarrow> filesystem \<Rightarrow> error + filesystem" where
  "cp_r tpl d fs =
     (if tpl = [] then Inl (Error ''Command failed: cp -r'')
      else Inr (fold (\<lambda>(rel, n) f. f(FsPath (isAbsolute d) (segments d @ rel) \<mapsto> n)) tpl fs))"

text \<open>
  \<^verbatim>\<open>fs.writeFile(fullPath, content, 'utf-8')\<close>: it throws for a path with a NUL, for a
  path that ends with a separator or names a directory, and where the parent is not a
  directory.
\<close>

definition writeFile :: "joined \<Rightarrow> string \<Rightarrow> filesystem \<Rightarrow> error + filesystem" where
  "writeFile fullPath content fs =
     (let p = location fullPath
      in if list_ex (\<lambda>s. CHR 0x00 \<in> set s) (segments p)
         then Inl (Error ''ERR_INVALID_ARG_VALUE: path must be a string without null bytes'')
         else if trailingSlash fullPath \<or> fs p = Some Dir
         then Inl (Error ''EISDIR: illegal operation on a directory, open'')
         else if fs (dirname p) \<noteq> Some Dir
         then Inl (Error ''ENOENT: no such file or directory, open'')
         else Inr (fs(p \<mapsto> File content)))"

text \<open>
  The effect of \<^verbatim>\<open>rm -rf\<close> on a location: the location and everything below it goes,
  except what \<^verbatim>\<open>rm\<close> fails to delete (\<open>keeps\<close>; nothing, when \<^verbatim>\<open>rm\<close> succeeds).
\<close>

definition rm_rf :: "(fspath \<Rightarrow> bool) \<Rightarrow> fspath \<Rightarrow> filesystem \<Rightarrow> filesystem" where
  "rm_rf keeps d fs =
     (\<lambda>q. if isAbsolute q = isAbsolute d \<and> prefix (segments d) (segments q) \<and> \<not> keeps q
          then None else fs q)"


section \<open>Port Allocator (orchestrator/dist/port-allocator.js)\<close>

text \<open>
  \<^verbatim>\<open>class PortAllocator { minPort; maxPort; usedPorts = new Set() }\<close>.
  Ports are JavaScript numbers holding integers; they are modelled as \<open>int\<close>.
\<close>

record PortAllocator =
  minPort :: int
  maxPort :: int
  usedPorts :: "int set"

text \<open>
  The body of \<^verbatim>\<open>allocate()\<close>:
  \<^verbatim>\<open>for (let port = this.minPort; port <= this.maxPort; port++) {
    if (!this.usedPorts.has(port)) { this.usedPorts.add(port); return port; } }
  throw new Error('No available ports');\<close>
  \<open>allocate_loop port pa\<close> is the loop entered with the loop variable at \<open>port\<close>.
\<close>

function allocate_loop :: "int \<Rightarrow> PortAllocator \<Rightarrow> error + (int \<times> PortAllocator)" where
  "allocate_loop port pa =
     (if port \<le> maxPort pa then
        (if port \<notin> usedPorts pa
         then Inr (port, pa\<lparr>usedPorts := insert port (usedPorts pa)\<rparr>)
         else allocate_loop (port + 1) pa)
      else Inl (Error ''No available ports''))"
  by pat_completeness auto
termination
  by (relation "measure (\<lambda>(port, pa). nat (maxPort pa + 1 - port))") auto

declare allocate_loop.simps [simp del]

definition allocate :: "PortAllocator \<Rightarrow> error + (int \<times> PortAllocator)" where
  "allocate pa = allocate_loop (minPort pa) pa"

definition release :: "int \<Rightarrow> PortAllocator \<Rightarrow> PortAllocator" where
  "release port pa = pa\<lparr>usedPorts := usedPorts pa - {port}\<rparr>"

definition getUsedCount :: "PortAllocator \<Rightarrow> nat" where
  "getUsedCount pa = card (usedPorts pa)"

section \<open>Gateway Registry (orchestrator/src/gateway-registry.ts)\<close>

text \<open>The \<^verbatim>\<open>Map<string, string>\<close> from run identifier to internal URL.\<close>

type_synonym GatewayRegistry = "string \<rightharpoonup> string"

definition registerUrl :: "string \<Rightarrow> string \<Rightarrow> GatewayRegistry \<Rightarrow> GatewayRegistry" where
  "registerUrl runId url reg = reg(runId \<mapsto> url)"

definition unregister :: "string \<Rightarrow> GatewayRegistry \<Rightarrow> GatewayRegistry" where
  "unregister runId reg = reg(runId := None)"

text \<open>
  \<^verbatim>\<open>return this.runToUrl.get(runId) || null;\<close>
  \<^verbatim>\<open>get\<close> gives \<^verbatim>\<open>undefined\<close> for a missing key, and \<^verbatim>\<open>||\<close> replaces every
  falsy left operand, the empty string included, by \<^verbatim>\<open>null\<close>.
\<close>

definition resolve :: "GatewayRegistry \<Rightarrow> string \<Rightarrow> string option" where
  "resolve reg runId =
     (case reg runId of
        None \<Rightarrow> None
      | Some url \<Rightarrow> (if url = [] then None else Some url))"


section \<open>Types of the orchestrator (types.ts)\<close>

datatype RunStatus =
  Queued | Generating | Installing | Building | Starting | Healthy | Ready | Failed | Terminated

text \<open>
  The fields of \<^verbatim>\<open>Run\<close> that are always present. The field \<^verbatim>\<open>id\<close> is \<open>id_run\<close>
  here (\<open>id\<close> is the identity function of HOL).
\<close>

record Run =
  id_run :: string
  sessionId :: string
  provider :: string
  model :: string
  status :: RunStatus

text \<open>
  \<^verbatim>\<open>Partial<Run>\<close>, as the \<^verbatim>\<open>PATCH\<close> bodies of the Run Manager use it: each field
  is present or absent. Dates are readings of a clock, as numbers.
\<close>

record RunUpdate =
  status_upd :: "RunStatus option"
  containerId_upd :: "string option"
  internalUrl_upd :: "string option"
  error_upd :: "string option"
  logsError_upd :: "string option"
  startedAt_upd :: "nat option"
  completedAt_upd :: "nat option"

definition no_update :: RunUpdate where
  "no_update = \<lparr>status_upd = None, containerId_upd = None, internalUrl_upd = None,
     error_upd = None, logsError_upd = None, startedAt_upd = None, completedAt_upd = None\<rparr>"

text \<open>
  \<^verbatim>\<open>GeneratedCode.files\<close> is a \<^verbatim>\<open>Record<string, string>\<close>: its entries in the order
  \<^verbatim>\<open>Object.entries\<close> lists them. The keys of a JavaScript object are distinct.
\<close>

record GeneratedCode =
  files :: "(string \<times> string) list"

record LLMResponse =
  code :: GeneratedCode
  model_used :: string

datatype container_status = building_c | running_c | stopped_c | failed_c

record DockerContainer =
  id_dc :: string
  runId_dc :: string
  port_dc :: nat
  internalUrl_dc :: string
  status_dc :: container_status

section \<open>LLM client (validateCode)\<close>

text \<open>
  \<^verbatim>\<open>const pageCode = code.files['app/page.tsx'];
  if (!pageCode) throw new Error('Missing app/page.tsx');
  if (!pageCode.includes('export default') && !pageCode.includes('export default function'))
    throw new Error('page.tsx must have a default export');\<close>
  A missing entry and an empty text are both falsy.
\<close>

definition validateCode :: "GeneratedCode \<Rightarrow> error + unit" where
  "validateCode c =
     (case map_of (files c) ''app/page.tsx'' of
        None \<Rightarrow> Inl (Error ''Missing app/page.tsx'')
      | Some pageCode \<Rightarrow>
          (if pageCode = [] then Inl (Error ''Missing app/page.tsx'')
           else if \<not> includes_str pageCode ''export default'' \<and>
                   \<not> includes_str pageCode ''export default function''
           then Inl (Error ''page.tsx must have a default export'')
           else Inr ()))"

section \<open>Docker runtime (orchestrator/dist/docker-runtime.js)\<close>

text \<open>
  The options object of \<^verbatim>\<open>docker.createContainer\<close>. A key that an options object
  leaves out is \<open>None\<close>.
\<close>

record HostConfig =
  Memory :: nat
  NanoCpus :: nat
  NetworkMode :: string
  PortBindings :: "(string \<times> string list) list option"
  Binds :: "string list"
  SecurityOpt :: "string list option"
  CapDrop :: "string list option"
  PidsLimit :: "nat option"
  AutoRemove :: bool

record ContainerOptions =
  name :: string
  Image :: string
  WorkingDir :: string
  Cmd :: "string list"
  Env :: "string list"
  ExposedPorts :: "string list option"
  HostConfig :: HostConfig
  AttachStdout :: bool
  AttachStderr :: bool
  Tty :: bool

definition NETWORK_NAME :: string where
  "NETWORK_NAME = ''llm-arena-network''"

text \<open>The options \<^verbatim>\<open>buildPhase\<close> passes to \<^verbatim>\<open>createContainer\<close>.\<close>

definition build_options :: "string \<Rightarrow> string \<Rightarrow> ContainerOptions" where
  "build_options runId workspaceDir =
     \<lparr>name = ''build-'' @ runId,
      Image = ''node:20-alpine'',
      WorkingDir = ''/workspace'',
      Cmd = [''/bin/sh'', ''-c'',
             ''npm install --legacy-peer-deps && NODE_ENV=production npm run build''],
      Env = [''NEXT_TELEMETRY_DISABLED=1'', ''NPM_CONFIG_UPDATE_NOTIFIER=false''],
      ExposedPorts = None,
      HostConfig =
        \<lparr>Memory = 4 * 1024 * 1024 * 1024,
         NanoCpus = 2 * 1000000000,
         NetworkMode = ''bridge'',
         PortBindings = None,
         Binds = [workspaceDir @ '':/workspace:rw''],
         SecurityOpt = None,
         CapDrop = None,
         PidsLimit = None,
         AutoRemove = False\<rparr>,
      AttachStdout = True,
      AttachStderr = True,
      Tty = False\<rparr>"

text \<open>The options \<^verbatim>\<open>runPhase\<close> passes to \<^verbatim>\<open>createContainer\<close>.\<close>

definition run_options :: "string \<Rightarrow> string \<Rightarrow> ContainerOptions" where
  "run_options runId workspaceDir =
     \<lparr>name = ''run-'' @ runId,
      Image = ''node:20-alpine'',
      WorkingDir = ''/workspace'',
      Cmd = [''npm'', ''run'', ''start''],
      Env = [''PORT=3000'', ''HOSTNAME=0.0.0.0'', ''NODE_ENV=production'',
             ''NEXT_TELEMETRY_DISABLED=1''],
      ExposedPorts = Some [''3000/tcp''],
      HostConfig =
        \<lparr>Memory = 2 * 1024 * 1024 * 1024,
         NanoCpus = 1 * 1000000000,
         NetworkMode = NETWORK_NAME,
         PortBindings = Some [(''3000/tcp'', [''''])],
         Binds = [workspaceDir @ '':/workspace:ro''],
         SecurityOpt = Some [''no-new-privileges:true''],
         CapDrop = Some [''ALL''],
         PidsLimit = Some 512,
         AutoRemove = False\<rparr>,
      AttachStdout = True,
      AttachStderr = True,
      Tty = False\<rparr>"

text \<open>
  The container engine: the containers that exist, by name, each with the options it was
  created with and its state. A container's handle and its \<^verbatim>\<open>id\<close> are its name here.
\<close>

datatype ContainerState = Created | Running | Exited

type_synonym engine = "string \<rightharpoonup> ContainerOptions \<times> ContainerState"

text \<open>An entry of \<^verbatim>\<open>DockerRuntime.containers\<close>.\<close>

record ContainerEntry =
  container :: string
  ip :: string
  hostPort :: nat

text \<open>The result of one \<^verbatim>\<open>fetch\<close> of the health probe: a response with its status code,
  or an exception (a network error, or the abort of the 5000 ms timeout).\<close>

datatype probe_result = Responded nat | FetchFailed

text \<open>
  What the world outside the orchestrator answers during one call: the configuration
  (\<open>templateDir\<close> is \<^verbatim>\<open>path.resolve(__dirname, '..', 'template')\<close>), the clock (one
  reading \<open>now\<close> serves every \<^verbatim>\<open>new Date()\<close> of the call), the result of the code
  generation call, the exit code and output of the build container, what \<^verbatim>\<open>inspect\<close>
  reports for the runtime container (\<open>inspectedPort\<close> is the number \<^verbatim>\<open>parseInt\<close> reads
  from the first host binding of \<^verbatim>\<open>3000/tcp\<close>, and 0 when there is no binding or no
  number), the result of each probe, the exception of \<^verbatim>\<open>container.remove\<close>, if it
  raises one, what \<^verbatim>\<open>sh -c\<close> does with a command line the model does not interpret
  (\<open>shell\<close>: its outcome and the file system it leaves), and the locations \<^verbatim>\<open>rm -rf\<close>
  fails to delete (\<open>rmKeeps\<close>). Other engine calls succeed; what the build container
  writes into the workspace is not modelled.
\<close>

record World =
  workspaceBase :: string
  templateDir :: string
  templateTree :: template
  now :: nat
  generated :: "error + LLMResponse"
  StatusCode :: nat
  buildLogs :: string
  IPAddress :: string
  inspectedPort :: nat
  probe :: "nat \<Rightarrow> probe_result"
  removeError :: "error option"
  shell :: "string \<Rightarrow> filesystem \<Rightarrow> (error + unit) \<times> filesystem"
  rmKeeps :: "fspath \<Rightarrow> bool"

text \<open>
  The state the orchestrator acts on: the \<^verbatim>\<open>containers\<close> map of the Docker runtime,
  the Gateway Registry, the engine, the options of every container the engine has created
  so far (oldest first), the file system, and the \<^verbatim>\<open>PATCH\<close> requests sent to the main
  application so far (run identifier and body, oldest first).
\<close>

record Orchestrator =
  containers :: "string \<rightharpoonup> ContainerEntry"
  registry :: GatewayRegistry
  docker :: engine
  created :: "ContainerOptions list"
  disk :: filesystem
  patches :: "(string \<times> RunUpdate) list"

text \<open>\<^verbatim>\<open>docker.createContainer(opts)\<close>: the engine refuses a second container of the same
  name.\<close>

definition createContainer :: "ContainerOptions \<Rightarrow> Orchestrator \<Rightarrow> error + Orchestrator" where
  "createContainer opts st =
     (if docker st (name opts) \<noteq> None
      then Inl (Error ''(HTTP code 409) conflict: name already in use'')
      else Inr (st\<lparr>docker := (docker st)(name opts \<mapsto> (opts, Created)),
                    created := created st @ [opts]\<rparr>))"

definition start_container :: "string \<Rightarrow> engine \<Rightarrow> engine" where
  "start_container n d = (case d n of None \<Rightarrow> d | Some (opts, s) \<Rightarrow> d(n \<mapsto> (opts, Running)))"

text \<open>\<^verbatim>\<open>stop({t: 10})\<close> then \<^verbatim>\<open>kill()\<close>, both with their errors discarded.\<close>

definition stop_kill :: "string \<Rightarrow> engine \<Rightarrow> engine" where
  "stop_kill n d = (case d n of None \<Rightarrow> d | Some (opts, s) \<Rightarrow> d(n \<mapsto> (opts, Exited)))"

definition remove_container :: "string \<Rightarrow> engine \<Rightarrow> engine" where
  "remove_container n d = d(n := None)"

text \<open>
  \<^verbatim>\<open>execAsync(`mkdir -p "${arg}"`)\<close>, for the text \<open>arg\<close> that names the location
  \<open>loc\<close>.
\<close>

definition exec_mkdir_p ::
  "World \<Rightarrow> string \<Rightarrow> fspath \<Rightarrow> filesystem \<Rightarrow> (error + unit) \<times> filesystem" where
  "exec_mkdir_p w arg loc fs =
     (if dq_plain arg
      then (case mkdir_p loc fs of Inl e \<Rightarrow> (Inl e, fs) | Inr fs1 \<Rightarrow> (Inr (), fs1))
      else shell w (''mkdir -p '' @ [CHR 0x22] @ arg @ [CHR 0x22]) fs)"

text \<open>\<^verbatim>\<open>execAsync(`cp -r "${templateDir}/"* "${dir}/"`)\<close>.\<close>

definition exec_cp_r :: "World \<Rightarrow> string \<Rightarrow> filesystem \<Rightarrow> (error + unit) \<times> filesystem" where
  "exec_cp_r w dir fs =
     (if dq_plain (templateDir w) \<and> dq_plain dir
      then (case cp_r (templateTree w) (normalize dir) fs of
              Inl e \<Rightarrow> (Inl e, fs)
            | Inr fs1 \<Rightarrow> (Inr (), fs1))
      else shell w (''cp -r '' @ [CHR 0x22] @ templateDir w @ ''/'' @ [CHR 0x22] @ ''* '' @
                    [CHR 0x22] @ dir @ ''/'' @ [CHR 0x22]) fs)"

text \<open>
  \<^verbatim>\<open>cleanupWorkspace(dir)\<close>: \<^verbatim>\<open>execAsync(`rm -rf ${dir}`)\<close>, the directory not
  quoted, and any exception caught and logged.
\<close>

definition cleanupWorkspace :: "World \<Rightarrow> string \<Rightarrow> Orchestrator \<Rightarrow> Orchestrator" where
  "cleanupWorkspace w dir st =
     st\<lparr>disk := (if word_plain dir then rm_rf (rmKeeps w) (normalize dir) (disk st)
                 else snd (shell w (''rm -rf '' @ dir) (disk st)))\<rparr>"

text \<open>
  The loop of \<^verbatim>\<open>prepareWorkspace\<close> over \<^verbatim>\<open>Object.entries(code.files)\<close>:
  \<^verbatim>\<open>const fullPath = path.join(dir, filePath);
  const fileDir = path.dirname(fullPath);
  await execAsync(`mkdir -p "${fileDir}"`);
  await fs.writeFile(fullPath, content, 'utf-8');\<close>
  An exception leaves what was written before it.
\<close>

fun overlay ::
  "World \<Rightarrow> string \<Rightarrow> (string \<times> string) list \<Rightarrow> filesystem \<Rightarrow> (error + unit) \<times> filesystem" where
  "overlay w dir [] fs = (Inr (), fs)"
| "overlay w dir ((filePath, content) # rest) fs =
     (let fullPath = path_join dir filePath;
          fileDir = dirname (location fullPath)
      in case exec_mkdir_p w (render fileDir) fileDir fs of
           (Inl e, fs1) \<Rightarrow> (Inl e, fs1)
         | (Inr u, fs1) \<Rightarrow>
             (case writeFile fullPath content fs1 of
                Inl e \<Rightarrow> (Inl e, fs1)
              | Inr fs2 \<Rightarrow> overlay w dir rest fs2))"

text \<open>
  \<^verbatim>\<open>prepareWorkspace(dir, code)\<close>: create the directory, copy the template into it,
  then write the generated files over it.
\<close>

definition prepareWorkspace ::
  "World \<Rightarrow> string \<Rightarrow> GeneratedCode \<Rightarrow> filesystem \<Rightarrow> (error + unit) \<times> filesystem" where
  "prepareWorkspace w dir c fs =
     (case exec_mkdir_p w dir (normalize dir) fs of
        (Inl e, fs1) \<Rightarrow> (Inl e, fs1)
      | (Inr u, fs1) \<Rightarrow>
          (case exec_cp_r w dir fs1 of
             (Inl e, fs2) \<Rightarrow> (Inl e, fs2)
           | (Inr u, fs2) \<Rightarrow> overlay w dir (files c) fs2))"



text \<open>
  \<^verbatim>\<open>buildPhase\<close>: create and start the build container, wait for it, remove it, and
  throw when its exit code is not 0.
\<close>

definition buildPhase ::
  "World \<Rightarrow> string \<Rightarrow> string \<Rightarrow> Orchestrator \<Rightarrow> (error + unit) \<times> Orchestrator" where
  "buildPhase w runId workspaceDir st =
     (let opts = build_options runId workspaceDir
      in case createContainer opts st of
           Inl e \<Rightarrow> (Inl e, st)
         | Inr st1 \<Rightarrow>
             (let d2 = start_container (name opts) (docker st1);
                  d3 = remove_container (name opts) d2;
                  st' = st1\<lparr>docker := d3\<rparr>
              in if StatusCode w \<noteq> 0
                 then (Inl (Error (''Build failed with exit code '' @ decimal (StatusCode w) @
                             '':'' @ [CHR 0x0A] @ buildLogs w)), st')
                 else (Inr (), st')))"

text \<open>
  \<^verbatim>\<open>runPhase\<close>: create and start the runtime container, inspect it, and throw when no
  host port is found. The container it started is not removed in that case.
\<close>

definition runPhase ::
  "World \<Rightarrow> string \<Rightarrow> string \<Rightarrow> Orchestrator \<Rightarrow> (error + ContainerEntry) \<times> Orchestrator" where
  "runPhase w runId workspaceDir st =
     (let opts = run_options runId workspaceDir
      in case createContainer opts st of
           Inl e \<Rightarrow> (Inl e, st)
         | Inr st1 \<Rightarrow>
             (let st' = st1\<lparr>docker := start_container (name opts) (docker st1)\<rparr>
              in if inspectedPort w = 0
                 then (Inl (Error (''Failed to get host port for container '' @ runId)), st')
                 else (Inr \<lparr>container = name opts, ip = IPAddress w,
                             hostPort = inspectedPort w\<rparr>, st')))"

text \<open>
  \<^verbatim>\<open>createRun\<close>: prepare the workspace, build, run, record the container under the
  run identifier; on any exception, clean up the workspace and throw again.
\<close>

definition createRun ::
  "World \<Rightarrow> string \<Rightarrow> GeneratedCode \<Rightarrow> Orchestrator \<Rightarrow> (error + DockerContainer) \<times> Orchestrator" where
  "createRun w runId c st =
     (let workspaceDir = workspaceBase w @ ''/'' @ runId
      in case prepareWorkspace w workspaceDir c (disk st) of
           (Inl e, fs1) \<Rightarrow> (Inl e, cleanupWorkspace w workspaceDir (st\<lparr>disk := fs1\<rparr>))
         | (Inr u, fs1) \<Rightarrow>
             (case buildPhase w runId workspaceDir (st\<lparr>disk := fs1\<rparr>) of
                (Inl e, st2) \<Rightarrow> (Inl e, cleanupWorkspace w workspaceDir st2)
              | (Inr u, st2) \<Rightarrow>
                  (case runPhase w runId workspaceDir st2 of
                     (Inl e, st3) \<Rightarrow> (Inl e, cleanupWorkspace w workspaceDir st3)
                   | (Inr entry, st3) \<Rightarrow>
                       (Inr \<lparr>id_dc = container entry,
                             runId_dc = runId,
                             port_dc = hostPort entry,
                             internalUrl_dc = ''http://localhost:'' @ decimal (hostPort entry),
                             status_dc = running_c\<rparr>,
                        st3\<lparr>containers := (containers st3)(runId \<mapsto> entry)\<rparr>))))"

text \<open>
  \<^verbatim>\<open>DockerRuntime.killRun\<close>: nothing when no container is recorded for the run;
  otherwise stop and remove the container, clean up the workspace and forget the entry. An
  exception of \<^verbatim>\<open>remove\<close> is thrown again, before the workspace is cleaned up.
\<close>

definition DockerRuntime_killRun ::
  "World \<Rightarrow> string \<Rightarrow> Orchestrator \<Rightarrow> (error + unit) \<times> Orchestrator" where
  "DockerRuntime_killRun w runId st =
     (case containers st runId of
        None \<Rightarrow> (Inr (), st)
      | Some entry \<Rightarrow>
          (let st1 = st\<lparr>docker := stop_kill (container entry) (docker st)\<rparr>
           in case removeError w of
                Some e \<Rightarrow> (Inl e, st1)
              | None \<Rightarrow>
                  (let st2 = st1\<lparr>docker := remove_container (container entry) (docker st1)\<rparr>;
                       st3 = cleanupWorkspace w (workspaceBase w @ ''/'' @ runId) st2
                   in (Inr (), st3\<lparr>containers := (containers st3)(runId := None)\<rparr>))))"


section \<open>Run Manager (orchestrator/src/run-manager.ts)\<close>

text \<open>
  \<^verbatim>\<open>updateRun\<close> sends \<^verbatim>\<open>PATCH /api/runs/:runId\<close> with the updates and discards any
  exception. \<^verbatim>\<open>updateRunStatus\<close> sends \<^verbatim>\<open>{ status, ...extra }\<close>: a status in
  \<open>extra\<close> would win.
\<close>

definition updateRun :: "string \<Rightarrow> RunUpdate \<Rightarrow> Orchestrator \<Rightarrow> Orchestrator" where
  "updateRun runId updates st = st\<lparr>patches := patches st @ [(runId, updates)]\<rparr>"

definition updateRunStatus :: "string \<Rightarrow> RunStatus \<Rightarrow> RunUpdate \<Rightarrow> Orchestrator \<Rightarrow> Orchestrator" where
  "updateRunStatus runId s extra st =
     updateRun runId
       (extra\<lparr>status_upd := (case status_upd extra of None \<Rightarrow> Some s | Some s' \<Rightarrow> Some s')\<rparr>) st"

text \<open>
  What the orchestrator last reported for a field of a run: the value of the last
  \<^verbatim>\<open>PATCH\<close> for the run that carries the field. The store of the main application
  merges each body into the run's record, so this is what the record holds once the
  requests are delivered.
\<close>

fun last_option :: "'a list \<Rightarrow> 'a option" where
  "last_option [] = None"
| "last_option (x # xs) = Some (last (x # xs))"

definition reported :: "(RunUpdate \<Rightarrow> 'a option) \<Rightarrow> Orchestrator \<Rightarrow> string \<Rightarrow> 'a option" where
  "reported field st runId =
     last_option (List.map_filter (\<lambda>(r, u). if r = runId then field u else None) (patches st))"

text \<open>\<^verbatim>\<open>response.ok\<close>: the status is in the range 200 to 299. An exception of
  \<^verbatim>\<open>fetch\<close> is caught and counts like a response that is not ok.\<close>

fun ok :: "probe_result \<Rightarrow> bool" where
  "ok (Responded c) = (200 \<le> c \<and> c \<le> 299)"
| "ok FetchFailed = False"

text \<open>
  What \<^verbatim>\<open>waitForHealthyUrl\<close> does, in order: a \<^verbatim>\<open>fetch\<close> of a URL with
  \<^verbatim>\<open>AbortSignal.timeout(ms)\<close>, or a \<^verbatim>\<open>setTimeout\<close> of so many milliseconds.
\<close>

datatype probe_event = Fetch string nat | Sleep nat

text \<open>
  \<^verbatim>\<open>for (let i = 0; i < maxAttempts; i++) {
    try { const response = await fetch(url, { signal: AbortSignal.timeout(5000) });
          if (response.ok) return true; } catch (error) { }
    await new Promise(resolve => setTimeout(resolve, 2000)); }
  return false;\<close>
  \<open>waitForHealthyUrl_loop\<close> is the loop entered with the loop variable at \<open>i\<close>; it gives the
  result and what was done.
\<close>

function waitForHealthyUrl_loop ::
  "(nat \<Rightarrow> probe_result) \<Rightarrow> string \<Rightarrow> nat \<Rightarrow> nat \<Rightarrow> bool \<times> probe_event list" where
  "waitForHealthyUrl_loop pr url maxAttempts i =
     (if i < maxAttempts then
        (if ok (pr i) then (True, [Fetch url 5000])
         else (case waitForHealthyUrl_loop pr url maxAttempts (i + 1) of
                 (r, evs) \<Rightarrow> (r, Fetch url 5000 # Sleep 2000 # evs)))
      else (False, []))"
  by pat_completeness auto
termination
  by (relation "measure (\<lambda>(pr, url, maxAttempts, i). maxAttempts - i)") auto

declare waitForHealthyUrl_loop.simps [simp del]

definition waitForHealthyUrl :: "(nat \<Rightarrow> probe_result) \<Rightarrow> string \<Rightarrow> nat \<Rightarrow> bool \<times> probe_event list" where
  "waitForHealthyUrl pr url maxAttempts = waitForHealthyUrl_loop pr url maxAttempts 0"

text \<open>The code generation call is external; its result is the world's.\<close>

definition generateCode :: "World \<Rightarrow> string \<Rightarrow> string \<Rightarrow> string \<Rightarrow> error + LLMResponse" where
  "generateCode w prompt prov mdl = generated w"

text \<open>
  The \<^verbatim>\<open>catch\<close> block of \<^verbatim>\<open>processRun\<close>: report the failure, then
  \<^verbatim>\<open>dockerRuntime.killRun(run.id)\<close>, whose exception is logged and dropped. The result
  lists the state after each of the two steps.
\<close>

definition processRun_catch :: "World \<Rightarrow> Run \<Rightarrow> error \<Rightarrow> Orchestrator \<Rightarrow> Orchestrator list" where
  "processRun_catch w run e st =
     (let st1 = updateRun (id_run run)
                  (no_update\<lparr>status_upd := Some Failed,
                             error_upd := Some (message e),
                             logsError_upd := Some (stack e),
                             completedAt_upd := Some (now w)\<rparr>) st
      in [st1, snd (DockerRuntime_killRun w (id_run run) st1)])"

text \<open>
  \<^verbatim>\<open>processRun\<close>, as the list of the states it goes through: the state after each
  statement that changes one, in order. These are the states another request can observe,
  since every such statement is followed by an \<^verbatim>\<open>await\<close>.
\<close>

definition processRun_steps :: "World \<Rightarrow> Run \<Rightarrow> string \<Rightarrow> Orchestrator \<Rightarrow> Orchestrator list" where
  "processRun_steps w run prompt st =
     (let st1 = updateRunStatus (id_run run) Generating (no_update\<lparr>startedAt_upd := Some (now w)\<rparr>) st
      in case generateCode w prompt (provider run) (model run) of
           Inl e \<Rightarrow> st1 # processRun_catch w run e st1
         | Inr llmResponse \<Rightarrow>
             (case validateCode (code llmResponse) of
                Inl e \<Rightarrow> st1 # processRun_catch w run e st1
              | Inr u \<Rightarrow>
                  (let st2 = updateRunStatus (id_run run) Installing no_update st1
                   in case createRun w (id_run run) (code llmResponse) st2 of
                        (Inl e, st3) \<Rightarrow> [st1, st2, st3] @ processRun_catch w run e st3
                      | (Inr c, st3) \<Rightarrow>
                          (let st4 = updateRun (id_run run)
                                       (no_update\<lparr>status_upd := Some Starting,
                                                  containerId_upd := Some (id_dc c),
                                                  internalUrl_upd := Some (internalUrl_dc c)\<rparr>) st3
                           in if \<not> fst (waitForHealthyUrl (probe w) (internalUrl_dc c) 30)
                              then [st1, st2, st3, st4] @
                                   processRun_catch w run
                                     (Error ''Server failed health check after 30 attempts'') st4
                              else
                                (let st5 = updateRunStatus (id_run run) Healthy no_update st4;
                                     st6 = st5\<lparr>registry :=
                                             registerUrl (id_run run) (internalUrl_dc c) (registry st5)\<rparr>;
                                     st7 = updateRun (id_run run)
                                             (no_update\<lparr>status_upd := Some Ready,
                                                        completedAt_upd := Some (now w)\<rparr>) st6
                                 in [st1, st2, st3, st4, st5, st6, st7])))))"

text \<open>The state \<^verbatim>\<open>processRun\<close> ends in.\<close>

definition processRun :: "World \<Rightarrow> Run \<Rightarrow> string \<Rightarrow> Orchestrator \<Rightarrow> Orchestrator" where
  "processRun w run prompt st = last (processRun_steps w run prompt st)"

text \<open>\<^verbatim>\<open>RunManager.killRun\<close>: kill in the Docker runtime, then report \<^verbatim>\<open>terminated\<close>;
  an exception is thrown again.\<close>

definition RunManager_killRun ::
  "World \<Rightarrow> string \<Rightarrow> Orchestrator \<Rightarrow> (error + unit) \<times> Orchestrator" where
  "RunManager_killRun w runId st =
     (case DockerRuntime_killRun w runId st of
        (Inl e, st1) \<Rightarrow> (Inl e, st1)
      | (Inr u, st1) \<Rightarrow> (Inr (), updateRunStatus runId Terminated no_update st1))"

section \<open>HTTP surface of the orchestrator (index.js)\<close>

text \<open>\<^verbatim>\<open>app.delete('/api/runs/:runId')\<close>.\<close>

definition delete_run :: "World \<Rightarrow> string \<Rightarrow> Orchestrator \<Rightarrow> http_response \<times> Orchestrator" where
  "delete_run w runId st =
     (case RunManager_killRun w runId st of
        (Inr u, st1) \<Rightarrow>
          (HttpResponse 200 (JObj [(''success'', JBool True)]),
           st1\<lparr>registry := unregister runId (registry st1)\<rparr>)
      | (Inl e, st1) \<Rightarrow> (HttpResponse 500 (JObj [(''error'', JStr (message e))]), st1))"

text \<open>\<^verbatim>\<open>app.get('/gateway/resolve/:runId')\<close>.\<close>

definition gateway_resolve :: "Orchestrator \<Rightarrow> string \<Rightarrow> http_response" where
  "gateway_resolve st runId =
     (case resolve (registry st) runId of
        None \<Rightarrow> HttpResponse 404 (JObj [(''error'', JStr ''Run not found'')])
      | Some url \<Rightarrow>
          (if url \<noteq> [] then HttpResponse 200 (JObj [(''url'', JStr url)])
           else HttpResponse 404 (JObj [(''error'', JStr ''Run not found'')])))"

text \<open>The state in which \<^verbatim>\<open>processRun\<close> calls \<^verbatim>\<open>createRun\<close>: after the reports of
  \<^verbatim>\<open>generating\<close> and \<^verbatim>\<open>installing\<close>.\<close>

definition at_createRun :: "World \<Rightarrow> Run \<Rightarrow> Orchestrator \<Rightarrow> Orchestrator" where
  "at_createRun w run st =
     updateRunStatus (id_run run) Installing no_update
       (updateRunStatus (id_run run) Generating (no_update\<lparr>startedAt_upd := Some (now w)\<rparr>) st)"


section \<open>Session creation in the main application (app/api/sessions/route.ts)\<close>

text \<open>
  \<^verbatim>\<open>CreateSessionRequest\<close> (types/index.ts): the prompt and the (provider, model)
  pairs. A string is the list of its UTF-16 code units, which is what \<^verbatim>\<open>length\<close>
  counts in JavaScript.
\<close>

record CreateSessionRequest =
  prompt :: string
  models :: "(string \<times> string) list"

definition providers :: "string list" where
  "providers = [''openai'', ''anthropic'', ''google'', ''xai'', ''meta'', ''deepseek'']"

text \<open>
  The element schema
  \<^verbatim>\<open>z.object({ provider: z.enum([...]), model: z.string() })\<close>
  on a JSON value: an object whose \<^verbatim>\<open>provider\<close> is one of the strings of the enum and
  whose \<^verbatim>\<open>model\<close> is a string. Other members are dropped.
\<close>

fun parse_model :: "json \<Rightarrow> (string \<times> string) option" where
  "parse_model (JObj kvs) =
     (case get_member kvs ''provider'' of
        Some (JStr p) \<Rightarrow>
          (case get_member kvs ''model'' of
             Some (JStr m) \<Rightarrow> (if p \<in> set providers then Some (p, m) else None)
           | _ \<Rightarrow> None)
      | _ \<Rightarrow> None)"
| "parse_model _ = None"

text \<open>Every element of the array has to parse.\<close>

fun parse_models :: "json list \<Rightarrow> (string \<times> string) list option" where
  "parse_models [] = Some []"
| "parse_models (j # js) =
     (case parse_model j of
        None \<Rightarrow> None
      | Some m \<Rightarrow> (case parse_models js of None \<Rightarrow> None | Some ms \<Rightarrow> Some (m # ms)))"

text \<open>
  \<^verbatim>\<open>createSessionSchema.safeParse(body)\<close>: \<open>Some\<close> the parsed data when validation
  succeeds. The schema is
  \<^verbatim>\<open>z.object({ prompt: z.string().min(10, ...),
     models: z.array(z.object({...})).min(1, ...).max(6, ...) })\<close>.
\<close>

fun safeParse :: "json \<Rightarrow> CreateSessionRequest option" where
  "safeParse (JObj kvs) =
     (case get_member kvs ''prompt'' of
        Some (JStr p) \<Rightarrow>
          (case get_member kvs ''models'' of
             Some (JArr js) \<Rightarrow>
               (if length p < 10 then None
                else if length js < 1 then None
                else if 6 < length js then None
                else (case parse_models js of
                        None \<Rightarrow> None
                      | Some ms \<Rightarrow> Some \<lparr>prompt = p, models = ms\<rparr>))
           | _ \<Rightarrow> None)
      | _ \<Rightarrow> None)"
| "safeParse _ = None"

text \<open>
  The store of the main application (\<^verbatim>\<open>class Store\<close> of \<^verbatim>\<open>lib/store\<close>): a map of
  sessions and a map of runs. A run of the main application has the fields of \<open>Run\<close> and
  two dates; \<^verbatim>\<open>createSession\<close> only uses the status \<^verbatim>\<open>queued\<close>, which the status
  types of the main application and of the orchestrator share.
\<close>

record StoredRun = Run +
  createdAt :: nat
  updatedAt :: nat

record Session =
  id_session :: string
  prompt_session :: string
  runs_session :: "StoredRun list"
  createdAt_session :: nat
  updatedAt_session :: nat

record Store =
  sessions :: "string \<rightharpoonup> Session"
  runs :: "string \<rightharpoonup> StoredRun"

text \<open>
  \<^verbatim>\<open>createSession(prompt, models)\<close>:
  \<^verbatim>\<open>const sessionId = nanoid(); const now = new Date();
  const runs = models.map((modelConfig) => { const runId = nanoid();
    const run = { id: runId, sessionId, model: modelConfig.model,
      provider: modelConfig.provider, status: "queued", createdAt: now, updatedAt: now };
    this.runs.set(runId, run); return run; });
  const session = { id: sessionId, prompt, runs, createdAt: now, updatedAt: now };
  this.sessions.set(sessionId, session); return session;\<close>
  What \<^verbatim>\<open>nanoid()\<close> and the clock give are parameters: \<open>sid\<close> for the session, \<open>rid i\<close>
  for the run of the \<open>i\<close>-th model, and \<open>t\<close> for the date.
\<close>

definition createSession ::
  "string \<Rightarrow> (nat \<Rightarrow> string) \<Rightarrow> nat \<Rightarrow> string \<Rightarrow> (string \<times> string) list \<Rightarrow> Store \<Rightarrow> Session \<times> Store" where
  "createSession sid rid t p ms store =
     (let rs = map (\<lambda>(i, modelConfig).
                    \<lparr>id_run = rid i, sessionId = sid, provider = fst modelConfig,
                     model = snd modelConfig, status = Queued, createdAt = t, updatedAt = t\<rparr>)
                (enumerate 0 ms);
          session = \<lparr>id_session = sid, prompt_session = p, runs_session = rs,
                      createdAt_session = t, updatedAt_session = t\<rparr>
      in (session,
          store\<lparr>runs := fold (\<lambda>r m. m(id_run r \<mapsto> r)) rs (runs store),
                sessions := (sessions store)(sid \<mapsto> session)\<rparr>))"

text \<open>
  The handler \<^verbatim>\<open>POST\<close>. Its argument is the result of \<^verbatim>\<open>request.json()\<close>: \<open>None\<close>
  when the body is not JSON, which throws into the outer \<^verbatim>\<open>catch\<close>. The text of the
  first validation issue is zod's and is a parameter. The request that triggers the
  orchestrator afterwards does not change the response and is left out.
\<close>

definition POST ::
  "(json \<Rightarrow> string) \<Rightarrow> string \<Rightarrow> (nat \<Rightarrow> string) \<Rightarrow> nat \<Rightarrow> json option \<Rightarrow> Store \<Rightarrow>
     http_response \<times> Store" where
  "POST first_issue sid rid t request_json store =
     (case request_json of
        None \<Rightarrow> (HttpResponse 500 (JObj [(''error'', JStr ''Failed to create session'')]), store)
      | Some b \<Rightarrow>
          (case safeParse b of
             None \<Rightarrow> (HttpResponse 400 (JObj [(''error'', JStr (first_issue b))]), store)
           | Some d \<Rightarrow>
               (case createSession sid rid t (prompt d) (models d) store of
                  (session, store') \<Rightarrow>
                    (HttpResponse 200
                       (JObj [(''sessionId'', JStr (id_session session)),
                              (''runIds'', JArr (map (\<lambda>r. JStr (id_run r)) (runs_session session)))]),
                     store'))))"

text \<open>
  The request a JSON body carries: the string under \<^verbatim>\<open>prompt\<close> and, for the array
  under \<^verbatim>\<open>models\<close>, the provider/model pair of each element (an object with a string
  under \<^verbatim>\<open>provider\<close> and a string under \<^verbatim>\<open>model\<close>). A body of another shape carries
  none.
\<close>

fun pair_of :: "json \<Rightarrow> (string \<times> string) option" where
  "pair_of (JObj kvs) =
     (case get_member kvs ''provider'' of
        Some (JStr p) \<Rightarrow>
          (case get_member kvs ''model'' of
             Some (JStr m) \<Rightarrow> Some (p, m)
           | _ \<Rightarrow> None)
      | _ \<Rightarrow> None)"
| "pair_of _ = None"

fun pairs_of :: "json list \<Rightarrow> (string \<times> string) list option" where
  "pairs_of [] = Some []"
| "pairs_of (j # js) =
     (case pair_of j of
        None \<Rightarrow> None
      | Some pm \<Rightarrow> (case pairs_of js of None \<Rightarrow> None | Some pms \<Rightarrow> Some (pm # pms)))"

fun request_of :: "json \<Rightarrow> CreateSessionRequest option" where
  "request_of (JObj kvs) =
     (case get_member kvs ''prompt'' of
        Some (JStr p) \<Rightarrow>
          (case get_member kvs ''models'' of
             Some (JArr js) \<Rightarrow>
               (case pairs_of js of
                  None \<Rightarrow> None
                | Some pms \<Rightarrow> Some \<lparr>prompt = p, models = pms\<rparr>)
           | _ \<Rightarrow> None)
      | _ \<Rightarrow> None)"
| "request_of _ = None"

text \<open>
  The bounds as the specification words them: between 1 and 6 provider/model pairs, every
  provider among the recognised ones, and a prompt of at least 10 characters.
\<close>

definition within_bounds :: "CreateSessionRequest \<Rightarrow> bool" where
  "within_bounds r \<longleftrightarrow>
     1 \<le> length (models r) \<and> length (models r) \<le> 6 \<and>
     list_all (\<lambda>pm. fst pm \<in> set [''openai'', ''anthropic'', ''google'', ''xai'', ''meta'', ''deepseek''])
       (models r) \<and>
     10 \<le> length (prompt r)"

text \<open>The JSON body that carries a request and nothing else.\<close>

definition body_of :: "CreateSessionRequest \<Rightarrow> json" where
  "body_of r =
     JObj [(''prompt'', JStr (prompt r)),
           (''models'', JArr (map (\<lambda>pm. JObj [(''provider'', JStr (fst pm)),
                                              (''model'', JStr (snd pm))]) (models r)))]"


section \<open>Concrete inputs\<close>

text \<open>
  A world in which everything succeeds: the code generation call returns a page with a
  default export (and nothing else, as \<^verbatim>\<open>generateCode\<close> does), the template holds a
  manifest, the build exits with 0, the engine binds host port 32768, the first probe is
  answered with 200 and \<^verbatim>\<open>rm\<close> deletes all it is asked to. (No command line of this
  world's runs is left to \<open>shell\<close>.)
\<close>

definition page_only :: GeneratedCode where
  "page_only = \<lparr>files = [(''app/page.tsx'', ''export default function Page() { return null }'')]\<rparr>"

definition good_world :: World where
  "good_world =
     \<lparr>workspaceBase = ''/w'',
      templateDir = ''/app/template'',
      templateTree = [([''package.json''], File ''{}'')],
      now = 7,
      generated = Inr \<lparr>code = page_only, model_used = ''openai/gpt-4o''\<rparr>,
      StatusCode = 0,
      buildLogs = [],
      IPAddress = ''172.18.0.2'',
      inspectedPort = 32768,
      probe = (\<lambda>i. Responded 200),
      removeError = None,
      shell = (\<lambda>command fs. (Inr (), fs)),
      rmKeeps = (\<lambda>q. False)\<rparr>"

text \<open>The same world with a server that answers every probe with 503.\<close>

definition unhealthy_world :: World where
  "unhealthy_world = good_world\<lparr>probe := (\<lambda>i. Responded 503)\<rparr>"

text \<open>The same world with a code generation call that fails.\<close>

definition failing_world :: World where
  "failing_world = good_world\<lparr>generated := Inl (Error ''No text response from OpenCode'')\<rparr>"

text \<open>The orchestrator right after its start, and a run.\<close>

definition initial :: Orchestrator where
  "initial = \<lparr>containers = Map.empty, registry = Map.empty, docker = Map.empty,
     created = [], disk = Map.empty, patches = []\<rparr>"

definition run1 :: Run where
  "run1 = \<lparr>id_run = ''r1'', sessionId = ''s1'', provider = ''openai'', model = ''gpt-4o'',
     status = Queued\<rparr>"


section \<open>What each operation leaves unchanged\<close>

lemma cleanupWorkspace_frame [simp]:
  "containers (cleanupWorkspace w dir st) = containers st"
  "registry (cleanupWorkspace w dir st) = registry st"
  "docker (cleanupWorkspace w dir st) = docker st"
  "created (cleanupWorkspace w dir st) = created st"
  "patches (cleanupWorkspace w dir st) = patches st"
  by (simp_all add: cleanupWorkspace_def)

lemma createContainer_frame:
  "createContainer opts st = Inr st1 \<Longrightarrow>
     containers st1 = containers st \<and> registry st1 = registry st \<and>
     patches st1 = patches st \<and> disk st1 = disk st \<and>
     created st1 = created st @ [opts] \<and>
     docker st1 = (docker st)(name opts \<mapsto> (opts, Created))"
  by (auto simp: createContainer_def split: if_splits)

lemma buildPhase_frame [simp]:
  "containers (snd (buildPhase w runId dir st)) = containers st"
  "registry (snd (buildPhase w runId dir st)) = registry st"
  "patches (snd (buildPhase w runId dir st)) = patches st"
  "disk (snd (buildPhase w runId dir st)) = disk st"
  by (auto simp: buildPhase_def Let_def dest: createContainer_frame split: sum.splits)

lemma runPhase_frame [simp]:
  "containers (snd (runPhase w runId dir st)) = containers st"
  "registry (snd (runPhase w runId dir st)) = registry st"
  "patches (snd (runPhase w runId dir st)) = patches st"
  "disk (snd (runPhase w runId dir st)) = disk st"
  by (auto simp: runPhase_def Let_def dest: createContainer_frame split: sum.splits)

lemma createRun_frame [simp]:
  "registry (snd (createRun w runId c st)) = registry st"
  "patches (snd (createRun w runId c st)) = patches st"
proof -
  obtain r1 fs1 where p: "prepareWorkspace w (workspaceBase w @ ''/'' @ runId) c (disk st) = (r1, fs1)"
    by (cases "prepareWorkspace w (workspaceBase w @ ''/'' @ runId) c (disk st)")
  obtain r2 st2 where b: "buildPhase w runId (workspaceBase w @ ''/'' @ runId) (st\<lparr>disk := fs1\<rparr>) = (r2, st2)"
    by (cases "buildPhase w runId (workspaceBase w @ ''/'' @ runId) (st\<lparr>disk := fs1\<rparr>)")
  obtain r3 st3 where r: "runPhase w runId (workspaceBase w @ ''/'' @ runId) st2 = (r3, st3)"
    by (cases "runPhase w runId (workspaceBase w @ ''/'' @ runId) st2")
  have b': "registry st2 = registry st" "patches st2 = patches st"
    using arg_cong [OF b, of "\<lambda>x. registry (snd x)"] arg_cong [OF b, of "\<lambda>x. patches (snd x)"]
    by simp_all
  have r': "registry st3 = registry st2" "patches st3 = patches st2"
    using arg_cong [OF r, of "\<lambda>x. registry (snd x)"] arg_cong [OF r, of "\<lambda>x. patches (snd x)"]
    by simp_all
  show "registry (snd (createRun w runId c st)) = registry st"
    using p b r b' r' by (simp add: createRun_def Let_def split: sum.splits)
  show "patches (snd (createRun w runId c st)) = patches st"
    using p b r b' r' by (simp add: createRun_def Let_def split: sum.splits)
qed

lemma createRun_containers:
  "createRun w runId c st = (Inl e, st') \<Longrightarrow> containers st' = containers st"
proof -
  assume a: "createRun w runId c st = (Inl e, st')"
  obtain r1 fs1 where p: "prepareWorkspace w (workspaceBase w @ ''/'' @ runId) c (disk st) = (r1, fs1)"
    by (cases "prepareWorkspace w (workspaceBase w @ ''/'' @ runId) c (disk st)")
  obtain r2 st2 where b: "buildPhase w runId (workspaceBase w @ ''/'' @ runId) (st\<lparr>disk := fs1\<rparr>) = (r2, st2)"
    by (cases "buildPhase w runId (workspaceBase w @ ''/'' @ runId) (st\<lparr>disk := fs1\<rparr>)")
  obtain r3 st3 where r: "runPhase w runId (workspaceBase w @ ''/'' @ runId) st2 = (r3, st3)"
    by (cases "runPhase w runId (workspaceBase w @ ''/'' @ runId) st2")
  have b': "containers st2 = containers st"
    using arg_cong [OF b, of "\<lambda>x. containers (snd x)"] by simp
  have r': "containers st3 = containers st2"
    using arg_cong [OF r, of "\<lambda>x. containers (snd x)"] by simp
  show ?thesis
    using a p b r b' r' by (auto simp: createRun_def Let_def split: sum.splits)
qed

lemma createRun_url:
  "createRun w runId c st = (Inr dc, st') \<Longrightarrow>
     internalUrl_dc dc = ''http://localhost:'' @ decimal (inspectedPort w) \<and>
     containers st' runId =
       Some \<lparr>container = ''run-'' @ runId, ip = IPAddress w, hostPort = inspectedPort w\<rparr>"
  by (auto simp: createRun_def runPhase_def run_options_def Let_def
      dest: createContainer_frame split: sum.splits prod.splits if_splits)

lemma killRun_frame [simp]:
  "registry (snd (DockerRuntime_killRun w runId st)) = registry st"
  "patches (snd (DockerRuntime_killRun w runId st)) = patches st"
  "created (snd (DockerRuntime_killRun w runId st)) = created st"
  by (simp_all add: DockerRuntime_killRun_def Let_def split: option.splits)

lemma killRun_untracked:
  "containers st runId = None \<Longrightarrow> DockerRuntime_killRun w runId st = (Inr (), st)"
  by (simp add: DockerRuntime_killRun_def)

lemma updateRun_frame [simp]:
  "containers (updateRun runId u st) = containers st"
  "registry (updateRun runId u st) = registry st"
  "docker (updateRun runId u st) = docker st"
  "created (updateRun runId u st) = created st"
  "disk (updateRun runId u st) = disk st"
  "patches (updateRun runId u st) = patches st @ [(runId, u)]"
  by (simp_all add: updateRun_def)

lemma updateRunStatus_frame [simp]:
  "containers (updateRunStatus runId s x st) = containers st"
  "registry (updateRunStatus runId s x st) = registry st"
  "docker (updateRunStatus runId s x st) = docker st"
  "created (updateRunStatus runId s x st) = created st"
  "disk (updateRunStatus runId s x st) = disk st"
  by (simp_all add: updateRunStatus_def)

lemma last_option_append [simp]:
  "last_option (xs @ [x]) = Some x"
  by (cases xs) simp_all

lemma reported_append:
  "reported f (st\<lparr>patches := patches st @ [(r, u)]\<rparr>) runId =
     (if r = runId then (case f u of None \<Rightarrow> reported f st runId | Some v \<Rightarrow> Some v)
      else reported f st runId)"
  by (simp add: reported_def List.map_filter_def split: option.splits)

lemma reported_cong:
  "patches st' = patches st \<Longrightarrow> reported f st' runId = reported f st runId"
  by (simp add: reported_def)

lemma reported_updateRun:
  "reported f (updateRun r u st) runId =
     (if r = runId then (case f u of None \<Rightarrow> reported f st runId | Some v \<Rightarrow> Some v)
      else reported f st runId)"
  using reported_append [of f st r u runId] by (simp add: updateRun_def)

lemma reported_status_updateRunStatus:
  "reported status_upd (updateRunStatus runId s no_update st) runId = Some s"
  by (simp add: updateRunStatus_def reported_updateRun no_update_def)


section \<open>Properties of the Port Allocator\<close>

lemma allocate_loop_fails_iff:
  "isl (allocate_loop port pa) \<longleftrightarrow> {port .. maxPort pa} \<subseteq> usedPorts pa"
proof (induction port pa rule: allocate_loop.induct)
  case (1 port pa)
  show ?case
  proof (cases "port \<le> maxPort pa")
    case False
    then show ?thesis by (simp add: allocate_loop.simps [of port pa])
  next
    case le: True
    show ?thesis
    proof (cases "port \<in> usedPorts pa")
      case False
      with le show ?thesis by (auto simp: allocate_loop.simps [of port pa])
    next
      case True
      have "{port .. maxPort pa} = insert port {port + 1 .. maxPort pa}"
        using le by auto
      with le True "1.IH" show ?thesis by (simp add: allocate_loop.simps [of port pa])
    qed
  qed
qed

lemma allocate_loop_error:
  "allocate_loop port pa = Inl e \<Longrightarrow> e = Error ''No available ports''"
proof (induction port pa rule: allocate_loop.induct)
  case (1 port pa)
  then show ?case
    by (cases "port \<le> maxPort pa"; cases "port \<in> usedPorts pa")
      (simp_all add: allocate_loop.simps [of port pa])
qed

lemma allocate_loop_lowest:
  "allocate_loop port pa = Inr (p, pa') \<Longrightarrow>
     port \<le> p \<and> p \<le> maxPort pa \<and> p \<notin> usedPorts pa \<and> {port ..< p} \<subseteq> usedPorts pa \<and>
     pa' = pa\<lparr>usedPorts := insert p (usedPorts pa)\<rparr>"
proof (induction port pa rule: allocate_loop.induct)
  case (1 port pa)
  show ?case
  proof (cases "port \<le> maxPort pa \<and> port \<in> usedPorts pa")
    case True
    with "1.prems" have "allocate_loop (port + 1) pa = Inr (p, pa')"
      by (simp add: allocate_loop.simps [of port pa])
    with True "1.IH" have ih: "port + 1 \<le> p" "p \<le> maxPort pa" "p \<notin> usedPorts pa"
      "{port + 1 ..< p} \<subseteq> usedPorts pa" "pa' = pa\<lparr>usedPorts := insert p (usedPorts pa)\<rparr>"
      by simp_all
    have "{port ..< p} = insert port {port + 1 ..< p}" using ih(1) by auto
    with ih True show ?thesis by simp
  next
    case False
    with "1.prems" show ?thesis
      by (auto simp: allocate_loop.simps [of port pa] split: if_splits)
  qed
qed

text \<open>
  Claim C7. For every allocator state, \<open>allocate\<close> fails (with the error
  \<open>No available ports\<close>) exactly when every port of the range \<open>[minPort, maxPort]\<close> is in
  the used set; when it returns a port, that port is the lowest port of the range outside
  the used set, the new state is the old one with the port added, and releasing the port
  gives back the prior state. Releasing a port twice is the same as releasing it once.
\<close>

theorem allocate_release_contract:
  "(isl (allocate pa) \<longleftrightarrow> {minPort pa .. maxPort pa} \<subseteq> usedPorts pa) \<and>
   (\<forall>e. allocate pa = Inl e \<longrightarrow> e = Error ''No available ports'') \<and>
   (\<forall>p pa'. allocate pa = Inr (p, pa') \<longrightarrow>
      minPort pa \<le> p \<and> p \<le> maxPort pa \<and> p \<notin> usedPorts pa \<and>
      (\<forall>q. minPort pa \<le> q \<and> q < p \<longrightarrow> q \<in> usedPorts pa) \<and>
      pa' = pa\<lparr>usedPorts := insert p (usedPorts pa)\<rparr> \<and>
      release p pa' = pa) \<and>
   release q (release q pa) = release q pa"
proof (intro conjI allI impI)
  show "isl (allocate pa) \<longleftrightarrow> {minPort pa .. maxPort pa} \<subseteq> usedPorts pa"
    unfolding allocate_def by (rule allocate_loop_fails_iff)
next
  fix e assume "allocate pa = Inl e"
  then show "e = Error ''No available ports''"
    unfolding allocate_def by (rule allocate_loop_error)
next
  fix p pa' assume a: "allocate pa = Inr (p, pa')"
  then have low: "minPort pa \<le> p \<and> p \<le> maxPort pa \<and> p \<notin> usedPorts pa \<and>
      {minPort pa ..< p} \<subseteq> usedPorts pa \<and> pa' = pa\<lparr>usedPorts := insert p (usedPorts pa)\<rparr>"
    unfolding allocate_def by (rule allocate_loop_lowest)
  from low show "minPort pa \<le> p" "p \<le> maxPort pa" "p \<notin> usedPorts pa"
    "pa' = pa\<lparr>usedPorts := insert p (usedPorts pa)\<rparr>" by simp_all
  from low show "release p pa' = pa" by (simp add: release_def)
  fix q assume "minPort pa \<le> q \<and> q < p"
  with low show "q \<in> usedPorts pa" by auto
next
  show "release q (release q pa) = release q pa" by (simp add: release_def)
qed

theorem allocate_release_contract_witness:
  "allocate \<lparr>minPort = 3001, maxPort = 3003, usedPorts = {3001, 3002}\<rparr> =
     Inr (3003, \<lparr>minPort = 3001, maxPort = 3003, usedPorts = {3003, 3001, 3002}\<rparr>) \<and>
   release 3003 \<lparr>minPort = 3001, maxPort = 3003, usedPorts = {3003, 3001, 3002}\<rparr> =
     \<lparr>minPort = 3001, maxPort = 3003, usedPorts = {3001, 3002}\<rparr> \<and>
   allocate \<lparr>minPort = 3001, maxPort = 3002, usedPorts = {3001, 3002}\<rparr> =
     Inl (Error ''No available ports'')"
proof -
  let ?pa = "\<lparr>minPort = 3001, maxPort = 3003, usedPorts = {3001, 3002}\<rparr>"
  let ?pa' = "\<lparr>minPort = 3001, maxPort = 3003, usedPorts = {3003, 3001, 3002}\<rparr>"
  let ?full = "\<lparr>minPort = 3001, maxPort = 3002, usedPorts = {3001, 3002}\<rparr>"
  have a: "allocate ?pa = Inr (3003, ?pa')"
    by (simp add: allocate_def allocate_loop.simps)
  have r: "release 3003 ?pa' = ?pa"
    using allocate_release_contract [of ?pa] a by blast
  have "{3001 .. 3002} \<subseteq> {3001, 3002 :: int}"
    by auto
  then have "isl (allocate ?full)"
    using allocate_release_contract [of ?full] by simp
  then obtain e where e: "allocate ?full = Inl e"
    by (cases "allocate ?full") simp_all
  then have "e = Error ''No available ports''"
    using allocate_release_contract [of ?full] by blast
  with a r e show ?thesis by simp
qed

section \<open>Properties of the Gateway Registry\<close>

text \<open>
  Claim C10. Registering a run identifier with the empty string as its URL makes
  \<open>resolve\<close> return none for it, which is also what \<open>resolve\<close> returns for an identifier
  that is not in the map; after \<open>registerUrl runId url\<close>, \<open>resolve runId\<close> returns \<open>url\<close>
  only when \<open>url\<close> is not empty.
\<close>

theorem resolve_registerUrl_empty:
  "resolve (registerUrl runId [] reg) runId = None \<and>
   (reg runId = None \<longrightarrow> resolve reg runId = None) \<and>
   resolve (registerUrl runId url reg) runId = (if url = [] then None else Some url)"
  by (simp add: resolve_def registerUrl_def)

theorem resolve_registerUrl_empty_witness:
  "resolve (registerUrl ''r1'' [] Map.empty) ''r1'' = None \<and>
   resolve Map.empty ''r1'' = None \<and>
   resolve (registerUrl ''r1'' ''http://localhost:32768'' Map.empty) ''r1'' =
     Some ''http://localhost:32768''"
  using resolve_registerUrl_empty [of "''r1''" Map.empty "''http://localhost:32768''"]
    resolve_registerUrl_empty [of "''r1''" Map.empty "[]"]
  by simp

section \<open>The failure path and the phases of processRun\<close>

lemma processRun_catch_last:
  "last (processRun_catch w run e st) =
     snd (DockerRuntime_killRun w (id_run run)
       (updateRun (id_run run)
          (no_update\<lparr>status_upd := Some Failed, error_upd := Some (message e),
             logsError_upd := Some (stack e), completedAt_upd := Some (now w)\<rparr>) st))"
  by (simp add: processRun_catch_def Let_def)

lemma processRun_catch_reported:
  "reported status_upd (last (processRun_catch w run e st)) (id_run run) = Some Failed"
  "reported error_upd (last (processRun_catch w run e st)) (id_run run) = Some (message e)"
  "reported completedAt_upd (last (processRun_catch w run e st)) (id_run run) = Some (now w)"
  "registry (last (processRun_catch w run e st)) = registry st"
  "reported logsError_upd (last (processRun_catch w run e st)) (id_run run) = Some (stack e)"
  by (simp_all add: processRun_catch_last reported_cong [OF killRun_frame(2)] reported_updateRun
      no_update_def)

lemma processRun_catch_not_Nil [simp]:
  "processRun_catch w run e st \<noteq> []"
  by (simp add: processRun_catch_def Let_def)

lemma processRun_generation_fails:
  "generated w = Inl e \<Longrightarrow>
   processRun w run p st =
     last (processRun_catch w run e
       (updateRunStatus (id_run run) Generating (no_update\<lparr>startedAt_upd := Some (now w)\<rparr>) st))"
  by (simp add: processRun_def processRun_steps_def generateCode_def Let_def)

lemma processRun_validation_fails:
  "generated w = Inr r \<Longrightarrow> validateCode (code r) = Inl e \<Longrightarrow>
   processRun w run p st =
     last (processRun_catch w run e
       (updateRunStatus (id_run run) Generating (no_update\<lparr>startedAt_upd := Some (now w)\<rparr>) st))"
  by (simp add: processRun_def processRun_steps_def generateCode_def Let_def)

lemma processRun_createRun_fails:
  "generated w = Inr r \<Longrightarrow> validateCode (code r) = Inr () \<Longrightarrow>
   createRun w (id_run run) (code r) (at_createRun w run st) = (Inl e, st3) \<Longrightarrow>
   processRun w run p st = last (processRun_catch w run e st3)"
  by (simp add: processRun_def processRun_steps_def generateCode_def at_createRun_def Let_def)

lemma processRun_unhealthy:
  "generated w = Inr r \<Longrightarrow> validateCode (code r) = Inr () \<Longrightarrow>
   createRun w (id_run run) (code r) (at_createRun w run st) = (Inr c, st3) \<Longrightarrow>
   \<not> fst (waitForHealthyUrl (probe w) (internalUrl_dc c) 30) \<Longrightarrow>
   processRun w run p st =
     last (processRun_catch w run (Error ''Server failed health check after 30 attempts'')
       (updateRun (id_run run)
          (no_update\<lparr>status_upd := Some Starting, containerId_upd := Some (id_dc c),
             internalUrl_upd := Some (internalUrl_dc c)\<rparr>) st3))"
  by (simp add: processRun_def processRun_steps_def generateCode_def at_createRun_def Let_def)

lemma processRun_steps_healthy:
  "generated w = Inr r \<Longrightarrow> validateCode (code r) = Inr () \<Longrightarrow>
   createRun w (id_run run) (code r) (at_createRun w run st) = (Inr c, st3) \<Longrightarrow>
   fst (waitForHealthyUrl (probe w) (internalUrl_dc c) 30) \<Longrightarrow>
   processRun_steps w run p st =
     (let st1 = updateRunStatus (id_run run) Generating (no_update\<lparr>startedAt_upd := Some (now w)\<rparr>) st;
          st2 = at_createRun w run st;
          st4 = updateRun (id_run run)
                  (no_update\<lparr>status_upd := Some Starting, containerId_upd := Some (id_dc c),
                     internalUrl_upd := Some (internalUrl_dc c)\<rparr>) st3;
          st5 = updateRunStatus (id_run run) Healthy no_update st4;
          st6 = st5\<lparr>registry := registerUrl (id_run run) (internalUrl_dc c) (registry st5)\<rparr>;
          st7 = updateRun (id_run run)
                  (no_update\<lparr>status_upd := Some Ready, completedAt_upd := Some (now w)\<rparr>) st6
      in [st1, st2, st3, st4, st5, st6, st7])"
  by (simp add: processRun_steps_def generateCode_def at_createRun_def Let_def)

lemma processRun_healthy_reported:
  assumes "generated w = Inr r" "validateCode (code r) = Inr ()"
    "createRun w (id_run run) (code r) (at_createRun w run st) = (Inr c, st3)"
    "fst (waitForHealthyUrl (probe w) (internalUrl_dc c) 30)"
  shows "reported status_upd (processRun w run p st) (id_run run) = Some Ready"
    and "reported status_upd (processRun_steps w run p st ! 4) (id_run run) = Some Healthy"
    and "registry (processRun w run p st) (id_run run) = Some (internalUrl_dc c)"
    and "containers (processRun w run p st) (id_run run) =
           Some \<lparr>container = ''run-'' @ id_run run, ip = IPAddress w, hostPort = inspectedPort w\<rparr>"
    and "reported status_upd (processRun_steps w run p st ! 5) (id_run run) = Some Healthy"
    and "registry (processRun_steps w run p st ! 5) (id_run run) = Some (internalUrl_dc c)"
proof -
  let ?st1 = "updateRunStatus (id_run run) Generating (no_update\<lparr>startedAt_upd := Some (now w)\<rparr>) st"
  let ?st4 = "updateRun (id_run run)
                  (no_update\<lparr>status_upd := Some Starting, containerId_upd := Some (id_dc c),
                     internalUrl_upd := Some (internalUrl_dc c)\<rparr>) st3"
  let ?st5 = "updateRunStatus (id_run run) Healthy no_update ?st4"
  let ?st6 = "?st5\<lparr>registry := registerUrl (id_run run) (internalUrl_dc c) (registry ?st5)\<rparr>"
  let ?st7 = "updateRun (id_run run)
                  (no_update\<lparr>status_upd := Some Ready, completedAt_upd := Some (now w)\<rparr>) ?st6"
  have steps: "processRun_steps w run p st = [?st1, at_createRun w run st, st3, ?st4, ?st5, ?st6, ?st7]"
    using processRun_steps_healthy [OF assms, of p] by (simp only: Let_def)
  have fin: "processRun w run p st = ?st7"
    by (simp add: processRun_def steps)
  have fifth: "processRun_steps w run p st ! 4 = ?st5"
    by (simp add: steps)
  show "reported status_upd (processRun w run p st) (id_run run) = Some Ready"
    unfolding fin by (simp add: reported_updateRun no_update_def)
  show "reported status_upd (processRun_steps w run p st ! 4) (id_run run) = Some Healthy"
    unfolding fifth by (rule reported_status_updateRunStatus)
  show "registry (processRun w run p st) (id_run run) = Some (internalUrl_dc c)"
    unfolding fin by (simp add: registerUrl_def)
  show "containers (processRun w run p st) (id_run run) =
           Some \<lparr>container = ''run-'' @ id_run run, ip = IPAddress w, hostPort = inspectedPort w\<rparr>"
    unfolding fin using createRun_url [OF assms(3)] by simp
  have sixth: "processRun_steps w run p st ! 5 = ?st6"
    by (simp add: steps)
  have "patches ?st6 = patches ?st5"
    by simp
  then show "reported status_upd (processRun_steps w run p st ! 5) (id_run run) = Some Healthy"
    unfolding sixth using reported_status_updateRunStatus [of "id_run run" Healthy ?st4]
    by (simp add: reported_def)
  show "registry (processRun_steps w run p st ! 5) (id_run run) = Some (internalUrl_dc c)"
    unfolding sixth by (simp add: registerUrl_def)
qed

text \<open>The probe loop.\<close>

lemma waitForHealthyUrl_loop_fst:
  "fst (waitForHealthyUrl_loop pr url m i) \<longleftrightarrow> (\<exists>j. i \<le> j \<and> j < m \<and> ok (pr j))"
proof (induction pr url m i rule: waitForHealthyUrl_loop.induct)
  case (1 pr url m i)
  show ?case
  proof (cases "i < m")
    case False
    then show ?thesis
      by (auto simp: waitForHealthyUrl_loop.simps [of pr url m i])
  next
    case lt: True
    show ?thesis
    proof (cases "ok (pr i)")
      case True
      with lt show ?thesis
        by (auto simp: waitForHealthyUrl_loop.simps [of pr url m i])
    next
      case False
      have "fst (waitForHealthyUrl_loop pr url m i) = fst (waitForHealthyUrl_loop pr url m (i + 1))"
        using lt False by (simp add: waitForHealthyUrl_loop.simps [of pr url m i] split: prod.splits)
      also have "\<dots> \<longleftrightarrow> (\<exists>j. i + 1 \<le> j \<and> j < m \<and> ok (pr j))"
        using "1.IH" lt False by simp
      also have "\<dots> \<longleftrightarrow> (\<exists>j. i \<le> j \<and> j < m \<and> ok (pr j))"
      proof
        assume "\<exists>j. i + 1 \<le> j \<and> j < m \<and> ok (pr j)"
        then obtain j where j: "i + 1 \<le> j" "j < m" "ok (pr j)" by blast
        then have "i \<le> j" by simp
        with j show "\<exists>j. i \<le> j \<and> j < m \<and> ok (pr j)" by blast
      next
        assume "\<exists>j. i \<le> j \<and> j < m \<and> ok (pr j)"
        then obtain j where j: "i \<le> j" "j < m" "ok (pr j)" by blast
        with False have "j \<noteq> i" by auto
        with j have "i + 1 \<le> j" by simp
        with j show "\<exists>j. i + 1 \<le> j \<and> j < m \<and> ok (pr j)" by blast
      qed
      finally show ?thesis .
    qed
  qed
qed

lemma waitForHealthyUrl_loop_miss:
  "(\<forall>j. i \<le> j \<and> j < m \<longrightarrow> \<not> ok (pr j)) \<Longrightarrow>
   waitForHealthyUrl_loop pr url m i =
     (False, concat (replicate (m - i) [Fetch url 5000, Sleep 2000]))"
proof (induction pr url m i rule: waitForHealthyUrl_loop.induct)
  case (1 pr url m i)
  show ?case
  proof (cases "i < m")
    case False
    then show ?thesis
      by (simp add: waitForHealthyUrl_loop.simps [of pr url m i])
  next
    case lt: True
    with "1.prems" have miss: "\<not> ok (pr i)" by simp
    have "waitForHealthyUrl_loop pr url m (i + 1) =
        (False, concat (replicate (m - (i + 1)) [Fetch url 5000, Sleep 2000]))"
      using "1.IH" [OF lt miss] "1.prems" by simp
    moreover have "m - i = Suc (m - (i + 1))" using lt by simp
    ultimately show ?thesis
      using lt miss by (simp add: waitForHealthyUrl_loop.simps [of pr url m i])
  qed
qed

lemma waitForHealthyUrl_loop_hit:
  "i \<le> k \<Longrightarrow> k < m \<Longrightarrow> ok (pr k) \<Longrightarrow> (\<forall>j. i \<le> j \<and> j < k \<longrightarrow> \<not> ok (pr j)) \<Longrightarrow>
   waitForHealthyUrl_loop pr url m i =
     (True, concat (replicate (k - i) [Fetch url 5000, Sleep 2000]) @ [Fetch url 5000])"
proof (induction pr url m i rule: waitForHealthyUrl_loop.induct)
  case (1 pr url m i)
  from "1.prems" have lt: "i < m" by simp
  show ?case
  proof (cases "ok (pr i)")
    case True
    with "1.prems" have "k = i"
      by (metis le_neq_implies_less order_refl)
    with lt True show ?thesis
      by (simp add: waitForHealthyUrl_loop.simps [of pr url m i])
  next
    case False
    with "1.prems" have "k \<noteq> i" by auto
    with "1.prems" have le: "i + 1 \<le> k" by simp
    have "waitForHealthyUrl_loop pr url m (i + 1) =
        (True, concat (replicate (k - (i + 1)) [Fetch url 5000, Sleep 2000]) @ [Fetch url 5000])"
      using "1.IH" [OF lt False le] "1.prems" by simp
    moreover have "k - i = Suc (k - (i + 1))" using le by simp
    ultimately show ?thesis
      using lt False by (simp add: waitForHealthyUrl_loop.simps [of pr url m i])
  qed
qed


lemma validateCode_page_only: "validateCode page_only = Inr ()"
  by (simp add: validateCode_def page_only_def)

lemma good_createRun:
  "disk st = Map.empty \<Longrightarrow> docker st = Map.empty \<Longrightarrow>
   fst (createRun (good_world\<lparr>probe := f\<rparr>) ''r1'' page_only st) =
     Inr \<lparr>id_dc = ''run-r1'', runId_dc = ''r1'', port_dc = 32768,
           internalUrl_dc = ''http://localhost:32768'', status_dc = running_c\<rparr>"
  by (simp add: createRun_def good_world_def page_only_def prepareWorkspace_def mkdir_p_def
      exec_mkdir_p_def exec_cp_r_def dq_plain_def render_def
      normalize_def cp_r_def path_join_def dirname_def writeFile_def buildPhase_def
      build_options_def createContainer_def start_container_def remove_container_def
      runPhase_def run_options_def decimal.simps digit_def Let_def)

lemma good_createRun_state:
  assumes "disk st = Map.empty" "docker st = Map.empty" "created st = []"
  shows "created (snd (createRun (good_world\<lparr>probe := f\<rparr>) ''r1'' page_only st)) =
           [build_options ''r1'' ''/w/r1'', run_options ''r1'' ''/w/r1'']"
    and "docker (snd (createRun (good_world\<lparr>probe := f\<rparr>) ''r1'' page_only st)) ''run-r1'' =
           Some (run_options ''r1'' ''/w/r1'', Running)"
    and "disk (snd (createRun (good_world\<lparr>probe := f\<rparr>) ''r1'' page_only st))
           (FsPath True [''w'', ''r1'', ''app'', ''page.tsx'']) =
           Some (File ''export default function Page() { return null }'')"
  using assms
  by (simp_all add: createRun_def good_world_def page_only_def prepareWorkspace_def mkdir_p_def
      exec_mkdir_p_def exec_cp_r_def dq_plain_def render_def
      normalize_def cp_r_def path_join_def dirname_def writeFile_def buildPhase_def
      build_options_def createContainer_def start_container_def remove_container_def
      runPhase_def run_options_def Let_def)

lemma good_createRun_at:
  "w = good_world \<or> w = unhealthy_world \<Longrightarrow>
   createRun w ''r1'' page_only (at_createRun w run1 initial) =
     (Inr \<lparr>id_dc = ''run-r1'', runId_dc = ''r1'', port_dc = 32768,
            internalUrl_dc = ''http://localhost:32768'', status_dc = running_c\<rparr>,
      snd (createRun w ''r1'' page_only (at_createRun w run1 initial)))"
proof -
  assume w: "w = good_world \<or> w = unhealthy_world"
  have g: "good_world = good_world\<lparr>probe := probe good_world\<rparr>"
    by simp
  from w obtain f where f: "w = good_world\<lparr>probe := f\<rparr>"
    using g unhealthy_world_def by metis
  have "disk (at_createRun w run1 initial) = Map.empty" "docker (at_createRun w run1 initial) = Map.empty"
    by (simp_all add: at_createRun_def initial_def)
  then have "fst (createRun (good_world\<lparr>probe := f\<rparr>) ''r1'' page_only (at_createRun w run1 initial)) =
     Inr \<lparr>id_dc = ''run-r1'', runId_dc = ''r1'', port_dc = 32768,
           internalUrl_dc = ''http://localhost:32768'', status_dc = running_c\<rparr>"
    by (rule good_createRun)
  with f show ?thesis
    by (metis prod.collapse)
qed

lemma good_world_healthy:
  "fst (waitForHealthyUrl (probe good_world) url 30)"
proof -
  have "ok (probe good_world 0)"
    by (simp add: good_world_def)
  then have "\<exists>j. 0 \<le> j \<and> j < 30 \<and> ok (probe good_world j)"
    by (intro exI [of _ 0]) simp
  then show ?thesis
    by (simp only: waitForHealthyUrl_def waitForHealthyUrl_loop_fst)
qed

section \<open>Validation of the generated code\<close>

lemma includes_str_iff:
  "includes_str s sub \<longleftrightarrow> (\<exists>xs ys. s = xs @ sub @ ys)"
proof (induction s)
  case Nil
  then show ?case by simp
next
  case (Cons c cs)
  show ?case
  proof
    assume "includes_str (c # cs) sub"
    then consider "prefix sub (c # cs)" | "includes_str cs sub" by auto
    then show "\<exists>xs ys. c # cs = xs @ sub @ ys"
    proof cases
      case 1
      then obtain zs where "c # cs = sub @ zs" by (auto simp: prefix_def)
      then have "c # cs = [] @ sub @ zs" by simp
      then show ?thesis by blast
    next
      case 2
      with Cons.IH obtain xs ys where "cs = xs @ sub @ ys" by blast
      then have "c # cs = (c # xs) @ sub @ ys" by simp
      then show ?thesis by blast
    qed
  next
    assume "\<exists>xs ys. c # cs = xs @ sub @ ys"
    then obtain xs ys where eq: "c # cs = xs @ sub @ ys" by blast
    show "includes_str (c # cs) sub"
    proof (cases xs)
      case Nil
      with eq have "prefix sub (c # cs)" by (simp add: prefix_def)
      then show ?thesis by simp
    next
      case (Cons x xs')
      with eq have "cs = xs' @ sub @ ys" by simp
      with Cons.IH have "includes_str cs sub" by blast
      then show ?thesis by simp
    qed
  qed
qed

lemma includes_str_longer:
  "includes_str s (a @ b) \<Longrightarrow> includes_str s a"
proof -
  assume "includes_str s (a @ b)"
  then obtain xs ys where "s = xs @ (a @ b) @ ys" by (auto simp: includes_str_iff)
  then have "s = xs @ a @ (b @ ys)" by simp
  then show ?thesis unfolding includes_str_iff by blast
qed

lemma validateCode_iff:
  "validateCode c = Inr () \<longleftrightarrow>
     (\<exists>pageCode. map_of (files c) ''app/page.tsx'' = Some pageCode \<and> pageCode \<noteq> [] \<and>
        includes_str pageCode ''export default'')"
proof -
  have "includes_str s ''export default function'' \<Longrightarrow> includes_str s ''export default''" for s
    using includes_str_longer [of s "''export default''" "'' function''"] by simp
  then show ?thesis
    by (auto simp: validateCode_def split: option.splits)
qed

text \<open>
  Claim C3, as amended. The validation that follows the code generation call accepts a
  file set exactly when it has an entry \<open>app/page.tsx\<close> whose text is not empty and
  contains \<open>export default\<close>; it looks at no manifest and at no scripts (the manifest
  comes with the template). When the validation throws, the run is reported \<open>failed\<close>
  with the message of the exception and a completion time.
\<close>

theorem validateCode_gate:
  "(validateCode c = Inr () \<longleftrightarrow>
      (\<exists>pageCode. map_of (files c) ''app/page.tsx'' = Some pageCode \<and> pageCode \<noteq> [] \<and>
         includes_str pageCode ''export default'')) \<and>
   (generated w = Inr r \<and> validateCode (code r) = Inl e \<longrightarrow>
      reported status_upd (processRun w run p st) (id_run run) = Some Failed \<and>
      reported error_upd (processRun w run p st) (id_run run) = Some (message e) \<and>
      reported completedAt_upd (processRun w run p st) (id_run run) = Some (now w))"
proof (intro conjI impI)
  show "validateCode c = Inr () \<longleftrightarrow>
      (\<exists>pageCode. map_of (files c) ''app/page.tsx'' = Some pageCode \<and> pageCode \<noteq> [] \<and>
         includes_str pageCode ''export default'')"
    by (rule validateCode_iff)
next
  assume a: "generated w = Inr r \<and> validateCode (code r) = Inl e"
  then have fin: "processRun w run p st =
     last (processRun_catch w run e
       (updateRunStatus (id_run run) Generating (no_update\<lparr>startedAt_upd := Some (now w)\<rparr>) st))"
    by (simp add: processRun_validation_fails)
  show "reported status_upd (processRun w run p st) (id_run run) = Some Failed"
    unfolding fin by (rule processRun_catch_reported)
  show "reported error_upd (processRun w run p st) (id_run run) = Some (message e)"
    unfolding fin by (rule processRun_catch_reported)
  show "reported completedAt_upd (processRun w run p st) (id_run run) = Some (now w)"
    unfolding fin by (rule processRun_catch_reported)
qed

text \<open>A world whose code generation call returns no files at all.\<close>

theorem validateCode_gate_witness:
  "validateCode page_only = Inr () \<and>
   validateCode \<lparr>files = []\<rparr> = Inl (Error ''Missing app/page.tsx'') \<and>
   reported status_upd
     (processRun (good_world\<lparr>generated := Inr \<lparr>code = \<lparr>files = []\<rparr>, model_used = ''openai/gpt-4o''\<rparr>\<rparr>)
        run1 ''build a landing page'' initial) ''r1'' = Some Failed \<and>
   reported error_upd
     (processRun (good_world\<lparr>generated := Inr \<lparr>code = \<lparr>files = []\<rparr>, model_used = ''openai/gpt-4o''\<rparr>\<rparr>)
        run1 ''build a landing page'' initial) ''r1'' = Some ''Missing app/page.tsx''"
proof -
  let ?r = "\<lparr>code = \<lparr>files = []\<rparr>, model_used = ''openai/gpt-4o''\<rparr>"
  let ?w = "good_world\<lparr>generated := Inr ?r\<rparr>"
  have v: "validateCode \<lparr>files = []\<rparr> = Inl (Error ''Missing app/page.tsx'')"
    by (simp add: validateCode_def)
  have p: "map_of (files page_only) ''app/page.tsx'' =
      Some ''export default function Page() { return null }''"
    by (simp add: page_only_def)
  have i: "includes_str ''export default function Page() { return null }'' ''export default''"
    by simp
  have "validateCode page_only = Inr ()"
    using validateCode_gate [of page_only] p i by simp
  moreover have "generated ?w = Inr ?r \<and> validateCode (code ?r) = Inl (Error ''Missing app/page.tsx'')"
    using v by simp
  ultimately show ?thesis
    using v validateCode_gate [of page_only ?w ?r "Error ''Missing app/page.tsx''" run1
        "''build a landing page''" initial]
    by (simp add: run1_def)
qed

text \<open>
  The claim as stated fails: the file set \<^verbatim>\<open>{'app/page.tsx': ...}\<close> has no manifest,
  it passes the validation, and the run becomes \<open>ready\<close>.
\<close>

theorem validateCode_no_manifest_counterexample:
  "map_of (files page_only) ''package.json'' = None \<and>
   validateCode page_only = Inr () \<and>
   reported status_upd (processRun good_world run1 ''build a landing page'' initial) ''r1'' =
     Some Ready"
proof -
  have g: "generated good_world = Inr \<lparr>code = page_only, model_used = ''openai/gpt-4o''\<rparr>"
    by (simp add: good_world_def)
  have v: "validateCode (code \<lparr>code = page_only, model_used = ''openai/gpt-4o''\<rparr>) = Inr ()"
    by (simp add: validateCode_page_only)
  have c: "createRun good_world (id_run run1)
      (code \<lparr>code = page_only, model_used = ''openai/gpt-4o''\<rparr>)
      (at_createRun good_world run1 initial) =
     (Inr \<lparr>id_dc = ''run-r1'', runId_dc = ''r1'', port_dc = 32768,
            internalUrl_dc = ''http://localhost:32768'', status_dc = running_c\<rparr>,
      snd (createRun good_world ''r1'' page_only (at_createRun good_world run1 initial)))"
    using good_createRun_at [of good_world] by (simp add: run1_def)
  have h: "fst (waitForHealthyUrl (probe good_world)
      (internalUrl_dc \<lparr>id_dc = ''run-r1'', runId_dc = ''r1'', port_dc = 32768,
            internalUrl_dc = ''http://localhost:32768'', status_dc = running_c\<rparr>) 30)"
    by (rule good_world_healthy)
  have "reported status_upd (processRun good_world run1 ''build a landing page'' initial)
      (id_run run1) = Some Ready"
    by (rule processRun_healthy_reported(1) [OF g v c h])
  then show ?thesis
    by (simp add: validateCode_page_only) (simp add: run1_def page_only_def)
qed


section \<open>The health probe\<close>

text \<open>
  Claim C5. \<open>waitForHealthyUrl\<close> with 30 attempts returns true exactly when one of the
  first 30 probes is answered with a status from 200 to 299 (an exception of the fetch is
  a miss). Until then it fetches the URL with a timeout of 5000 ms and sleeps 2000 ms
  after every miss: when probe \<open>k\<close> is the first success it has made \<open>k + 1\<close> fetches, and
  when all 30 miss it has made 30 fetches and returns false. In \<open>processRun\<close> the URL
  probed is the internal URL of the container; a success makes the run \<open>healthy\<close> (and then
  \<open>ready\<close>), and 30 misses make it \<open>failed\<close> with the error
  \<open>Server failed health check after 30 attempts\<close>.
\<close>

theorem health_probe_contract:
  "(fst (waitForHealthyUrl pr url 30) \<longleftrightarrow> (\<exists>j<30. ok (pr j))) \<and>
   (\<forall>k. k < 30 \<and> ok (pr k) \<and> (\<forall>j. j < k \<longrightarrow> \<not> ok (pr j)) \<longrightarrow>
      waitForHealthyUrl pr url 30 =
        (True, concat (replicate k [Fetch url 5000, Sleep 2000]) @ [Fetch url 5000])) \<and>
   ((\<forall>j. j < 30 \<longrightarrow> \<not> ok (pr j)) \<longrightarrow>
      waitForHealthyUrl pr url 30 =
        (False, concat (replicate 30 [Fetch url 5000, Sleep 2000]))) \<and>
   (\<forall>s. ok (Responded s) \<longleftrightarrow> 200 \<le> s \<and> s \<le> 299) \<and>
   \<not> ok FetchFailed \<and>
   (generated w = Inr r \<and> validateCode (code r) = Inr () \<and>
    createRun w (id_run run) (code r) (at_createRun w run st) = (Inr c, st3) \<longrightarrow>
      internalUrl_dc c = ''http://localhost:'' @ decimal (inspectedPort w) \<and>
      (if fst (waitForHealthyUrl (probe w) (internalUrl_dc c) 30)
       then reported status_upd (processRun_steps w run p st ! 4) (id_run run) = Some Healthy \<and>
            reported status_upd (processRun w run p st) (id_run run) = Some Ready
       else reported status_upd (processRun w run p st) (id_run run) = Some Failed \<and>
            reported error_upd (processRun w run p st) (id_run run) =
              Some ''Server failed health check after 30 attempts''))"
proof (intro conjI allI impI)
  show "fst (waitForHealthyUrl pr url 30) \<longleftrightarrow> (\<exists>j<30. ok (pr j))"
    by (simp add: waitForHealthyUrl_def waitForHealthyUrl_loop_fst)
next
  fix k assume a: "k < 30 \<and> ok (pr k) \<and> (\<forall>j. j < k \<longrightarrow> \<not> ok (pr j))"
  then have "waitForHealthyUrl_loop pr url 30 0 =
      (True, concat (replicate (k - 0) [Fetch url 5000, Sleep 2000]) @ [Fetch url 5000])"
    by (intro waitForHealthyUrl_loop_hit) simp_all
  then show "waitForHealthyUrl pr url 30 =
      (True, concat (replicate k [Fetch url 5000, Sleep 2000]) @ [Fetch url 5000])"
    by (simp add: waitForHealthyUrl_def)
next
  assume "\<forall>j. j < 30 \<longrightarrow> \<not> ok (pr j)"
  then have "waitForHealthyUrl_loop pr url 30 0 =
      (False, concat (replicate (30 - 0) [Fetch url 5000, Sleep 2000]))"
    by (intro waitForHealthyUrl_loop_miss) simp
  then show "waitForHealthyUrl pr url 30 =
      (False, concat (replicate 30 [Fetch url 5000, Sleep 2000]))"
    by (simp add: waitForHealthyUrl_def)
next
  fix s show "ok (Responded s) \<longleftrightarrow> 200 \<le> s \<and> s \<le> 299" by simp
next
  show "\<not> ok FetchFailed" by simp
next
  assume a: "generated w = Inr r \<and> validateCode (code r) = Inr () \<and>
    createRun w (id_run run) (code r) (at_createRun w run st) = (Inr c, st3)"
  then show "internalUrl_dc c = ''http://localhost:'' @ decimal (inspectedPort w)"
    using createRun_url [of w "id_run run" "code r" "at_createRun w run st" c st3] by blast
  from a have g: "generated w = Inr r" and v: "validateCode (code r) = Inr ()"
    and cr: "createRun w (id_run run) (code r) (at_createRun w run st) = (Inr c, st3)"
    by simp_all
  show "if fst (waitForHealthyUrl (probe w) (internalUrl_dc c) 30)
       then reported status_upd (processRun_steps w run p st ! 4) (id_run run) = Some Healthy \<and>
            reported status_upd (processRun w run p st) (id_run run) = Some Ready
       else reported status_upd (processRun w run p st) (id_run run) = Some Failed \<and>
            reported error_upd (processRun w run p st) (id_run run) =
              Some ''Server failed health check after 30 attempts''"
  proof (cases "fst (waitForHealthyUrl (probe w) (internalUrl_dc c) 30)")
    case True
    with processRun_healthy_reported(1,2) [OF g v cr True, of p] show ?thesis
      by simp
  next
    case False
    have msg: "message (Error ''Server failed health check after 30 attempts'') =
        ''Server failed health check after 30 attempts''"
      by simp
    from False show ?thesis
      unfolding processRun_unhealthy [OF g v cr False, of p]
      using processRun_catch_reported(1,2)
        [of w run "Error ''Server failed health check after 30 attempts''"]
      by (simp only: msg if_False simp_thms)
  qed
qed

theorem health_probe_contract_witness:
  "waitForHealthyUrl (\<lambda>i. if i < 2 then FetchFailed else Responded 204) ''http://localhost:32768'' 30 =
     (True, [Fetch ''http://localhost:32768'' 5000, Sleep 2000,
             Fetch ''http://localhost:32768'' 5000, Sleep 2000,
             Fetch ''http://localhost:32768'' 5000]) \<and>
   waitForHealthyUrl (\<lambda>i. Responded 503) ''http://localhost:32768'' 30 =
     (False, concat (replicate 30 [Fetch ''http://localhost:32768'' 5000, Sleep 2000])) \<and>
   reported status_upd (processRun unhealthy_world run1 ''build a landing page'' initial) ''r1'' =
     Some Failed \<and>
   reported error_upd (processRun unhealthy_world run1 ''build a landing page'' initial) ''r1'' =
     Some ''Server failed health check after 30 attempts'' \<and>
   reported status_upd (processRun good_world run1 ''build a landing page'' initial) ''r1'' =
     Some Ready"
proof -
  let ?u = "''http://localhost:32768''"
  let ?pr = "\<lambda>i::nat. if i < 2 then FetchFailed else Responded 204"
  let ?r = "\<lparr>code = page_only, model_used = ''openai/gpt-4o''\<rparr>"
  let ?c = "\<lparr>id_dc = ''run-r1'', runId_dc = ''r1'', port_dc = 32768,
            internalUrl_dc = ''http://localhost:32768'', status_dc = running_c\<rparr>"
  let ?p = "''build a landing page''"
  let ?su = "snd (createRun unhealthy_world ''r1'' page_only (at_createRun unhealthy_world run1 initial))"
  let ?sg = "snd (createRun good_world ''r1'' page_only (at_createRun good_world run1 initial))"
  note first_hit = health_probe_contract [of ?pr ?u, THEN conjunct2, THEN conjunct1, rule_format, of 2]
  note all_miss = health_probe_contract [of "\<lambda>i. Responded 503" ?u, THEN conjunct2, THEN conjunct2,
      THEN conjunct1, rule_format]
  note in_run = health_probe_contract [THEN conjunct2, THEN conjunct2, THEN conjunct2,
      THEN conjunct2, THEN conjunct2, rule_format, THEN conjunct2]
  have "(2::nat) < 30 \<and> ok (?pr 2) \<and> (\<forall>j. j < 2 \<longrightarrow> \<not> ok (?pr j))"
    by simp
  then have "waitForHealthyUrl ?pr ?u 30 =
      (True, concat (replicate 2 [Fetch ?u 5000, Sleep 2000]) @ [Fetch ?u 5000])"
    by (rule first_hit)
  then have hit: "waitForHealthyUrl ?pr ?u 30 =
      (True, [Fetch ?u 5000, Sleep 2000, Fetch ?u 5000, Sleep 2000, Fetch ?u 5000])"
    by (simp add: numeral_2_eq_2)
  have "\<not> ok (Responded 503)"
    by simp
  then have miss: "waitForHealthyUrl (\<lambda>i. Responded 503) ?u 30 =
      (False, concat (replicate 30 [Fetch ?u 5000, Sleep 2000]))"
    by (rule all_miss)
  have gu: "generated unhealthy_world = Inr ?r \<and> validateCode (code ?r) = Inr () \<and>
      createRun unhealthy_world (id_run run1) (code ?r) (at_createRun unhealthy_world run1 initial) =
        (Inr ?c, ?su)"
    using good_createRun_at [of unhealthy_world]
    by (simp add: unhealthy_world_def good_world_def validateCode_page_only run1_def)
  have pu: "probe unhealthy_world = (\<lambda>i. Responded 503)"
    by (simp add: unhealthy_world_def)
  have nu: "\<not> fst (waitForHealthyUrl (probe unhealthy_world) (internalUrl_dc ?c) 30)"
    using miss by (simp add: pu)
  have bad:
    "reported status_upd (processRun unhealthy_world run1 ?p initial) (id_run run1) = Some Failed \<and>
     reported error_upd (processRun unhealthy_world run1 ?p initial) (id_run run1) =
       Some ''Server failed health check after 30 attempts''"
    using in_run [of unhealthy_world ?r run1 initial ?c ?su ?p, OF gu] nu
    by (simp only: if_False)
  have gg: "generated good_world = Inr ?r \<and> validateCode (code ?r) = Inr () \<and>
      createRun good_world (id_run run1) (code ?r) (at_createRun good_world run1 initial) =
        (Inr ?c, ?sg)"
    using good_createRun_at [of good_world]
    by (simp add: good_world_def validateCode_page_only run1_def)
  have hg: "fst (waitForHealthyUrl (probe good_world) (internalUrl_dc ?c) 30)"
    by (rule good_world_healthy)
  have good:
    "reported status_upd (processRun_steps good_world run1 ?p initial ! 4) (id_run run1) = Some Healthy \<and>
     reported status_upd (processRun good_world run1 ?p initial) (id_run run1) = Some Ready"
    using in_run [of good_world ?r run1 initial ?c ?sg ?p, OF gg] hg
    by (simp only: if_True)
  have id: "id_run run1 = ''r1''"
    by (simp add: run1_def)
  from bad good have
    "reported status_upd (processRun unhealthy_world run1 ?p initial) ''r1'' = Some Failed"
    "reported error_upd (processRun unhealthy_world run1 ?p initial) ''r1'' =
       Some ''Server failed health check after 30 attempts''"
    "reported status_upd (processRun good_world run1 ?p initial) ''r1'' = Some Ready"
    unfolding id by blast+
  with hit miss show ?thesis
    by (intro conjI)
qed


section \<open>Session creation\<close>

lemma parse_models_body:
  "parse_models (map (\<lambda>pm. JObj [(''provider'', JStr (fst pm)), (''model'', JStr (snd pm))]) ms) =
     (if list_all (\<lambda>pm. fst pm \<in> set providers) ms then Some ms else None)"
  by (induction ms) (simp_all add: get_member_def)

lemma parse_model_Some:
  "parse_model j = Some pm \<Longrightarrow> fst pm \<in> set providers"
  by (cases j) (auto split: option.splits json.splits if_splits)

lemma parse_models_Some:
  "parse_models js = Some ms \<Longrightarrow>
     length ms = length js \<and> list_all (\<lambda>pm. fst pm \<in> set providers) ms"
proof (induction js arbitrary: ms)
  case Nil
  then show ?case by simp
next
  case (Cons j js)
  then obtain pm ms' where "parse_model j = Some pm" "parse_models js = Some ms'" "ms = pm # ms'"
    by (auto split: option.splits)
  with Cons.IH [of ms'] parse_model_Some [of j pm] show ?case by simp
qed

lemma safeParse_body_of:
  "safeParse (body_of r) = (if within_bounds r then Some r else None)"
proof -
  have m: "get_member [(''prompt'', JStr p), (''models'', JArr js)] ''prompt'' = Some (JStr p)"
    "get_member [(''prompt'', JStr p), (''models'', JArr js)] ''models'' = Some (JArr js)" for p js
    by (simp_all add: get_member_def)
  show ?thesis
    by (auto simp: body_of_def m parse_models_body within_bounds_def providers_def Suc_le_eq)
qed

lemma safeParse_Some:
  assumes "safeParse b = Some d"
  shows "within_bounds d \<and>
     (\<exists>kvs js. b = JObj kvs \<and> get_member kvs ''prompt'' = Some (JStr (prompt d)) \<and>
        get_member kvs ''models'' = Some (JArr js) \<and> length js = length (models d))"
proof -
  from assms obtain kvs where b: "b = JObj kvs"
    by (cases b) simp_all
  from assms b obtain p where p: "get_member kvs ''prompt'' = Some (JStr p)"
    by (auto split: option.splits json.splits)
  from assms b p obtain js where js: "get_member kvs ''models'' = Some (JArr js)"
    by (auto split: option.splits json.splits)
  from assms b p js obtain ms where
    ms: "parse_models js = Some ms" "\<not> length p < 10" "\<not> length js < 1" "\<not> 6 < length js"
      "d = \<lparr>prompt = p, models = ms\<rparr>"
    by (auto split: option.splits if_splits)
  from parse_models_Some [OF ms(1)] ms have "within_bounds d"
    by (simp add: within_bounds_def providers_def Suc_le_eq)
  moreover from parse_models_Some [OF ms(1)] ms have "length js = length (models d)" "prompt d = p"
    by simp_all
  ultimately show ?thesis
    using b p js by simp
qed

lemma parse_model_pair_of:
  "parse_model j =
     (case pair_of j of None \<Rightarrow> None | Some pm \<Rightarrow> if fst pm \<in> set providers then Some pm else None)"
  by (cases j) (auto split: option.splits json.splits)

lemma parse_models_pairs_of:
  "parse_models js =
     (case pairs_of js of
        None \<Rightarrow> None
      | Some pms \<Rightarrow> if list_all (\<lambda>pm. fst pm \<in> set providers) pms then Some pms else None)"
proof (induction js)
  case Nil
  then show ?case by simp
next
  case (Cons j js)
  show ?case
  proof (cases "pair_of j")
    case None
    then show ?thesis by (simp add: parse_model_pair_of)
  next
    case (Some pm)
    show ?thesis
    proof (cases "pairs_of js")
      case None
      with Some Cons.IH show ?thesis by (simp add: parse_model_pair_of)
    next
      case pms: (Some pms)
      with Some Cons.IH show ?thesis by (simp add: parse_model_pair_of)
    qed
  qed
qed

lemma pairs_of_length:
  "pairs_of js = Some pms \<Longrightarrow> length pms = length js"
proof (induction js arbitrary: pms)
  case Nil
  then show ?case by simp
next
  case (Cons j js)
  then show ?case by (auto split: option.splits)
qed

lemma safeParse_request_of:
  "safeParse b =
     (case request_of b of None \<Rightarrow> None | Some r \<Rightarrow> if within_bounds r then Some r else None)"
proof (cases b)
  case (JObj kvs)
  show ?thesis
  proof (cases "request_of b")
    case None
    with JObj show ?thesis
      by (auto simp: parse_models_pairs_of split: option.splits json.splits)
  next
    case (Some r)
    with JObj obtain p js pms where
      m: "get_member kvs ''prompt'' = Some (JStr p)" "get_member kvs ''models'' = Some (JArr js)"
        "pairs_of js = Some pms" "r = \<lparr>prompt = p, models = pms\<rparr>"
      by (auto split: option.splits json.splits)
    from pairs_of_length [OF m(3)] have l: "length pms = length js" .
    from JObj Some m l show ?thesis
      by (auto simp: parse_models_pairs_of within_bounds_def providers_def Suc_le_eq)
  qed
qed simp_all

lemma pairs_of_body:
  "pairs_of (map (\<lambda>pm. JObj [(''provider'', JStr (fst pm)), (''model'', JStr (snd pm))]) ms) = Some ms"
  by (induction ms) (simp_all add: get_member_def)

lemma request_of_body_of:
  "request_of (body_of r) = Some r"
  by (simp add: body_of_def get_member_def pairs_of_body)

lemma createSession_runs:
  "map (\<lambda>x. (provider x, model x))
      (map (\<lambda>(i, modelConfig).
              \<lparr>id_run = rid i, sessionId = sid, provider = fst modelConfig,
               model = snd modelConfig, status = Queued, createdAt = t, updatedAt = t\<rparr>)
         (enumerate n ms)) = ms"
  by (induction ms arbitrary: n) (auto split: prod.splits)

lemma createSession_ids:
  "map id_run
      (map (\<lambda>(i, modelConfig).
              \<lparr>id_run = rid i, sessionId = sid, provider = fst modelConfig,
               model = snd modelConfig, status = Queued, createdAt = t, updatedAt = t\<rparr>)
         (enumerate n ms)) = map rid [n..<n + length ms]"
proof (induction ms arbitrary: n)
  case Nil
  then show ?case by simp
next
  case (Cons m ms)
  have "[n..<n + Suc (length ms)] = n # [Suc n..<n + Suc (length ms)]"
    by (rule upt_conv_Cons) simp
  with Cons.IH [of "Suc n"] show ?case by simp
qed

lemma fold_set_dom:
  "dom (fold (\<lambda>r m. m(f r \<mapsto> r)) rs m0) = dom m0 \<union> f ` set rs"
  by (induction rs arbitrary: m0) auto

lemma POST_not_json:
  "POST first_issue sid rid t None store =
     (HttpResponse 500 (JObj [(''error'', JStr ''Failed to create session'')]), store)"
  by (simp add: POST_def)

text \<open>
  Claim C9. Of a JSON request body, session creation accepts the prompt and the
  provider/model pairs it carries exactly when there are between 1 and 6 pairs, every
  provider is one of the six recognised ones and the prompt has at least 10 characters;
  every request is carried by a body. A body that is not accepted is answered with HTTP
  400 and the store, its sessions and its runs, is unchanged. An accepted body is answered
  with HTTP 200, the identifier of the session and those of its runs; the store gains the
  session, with the prompt and one queued run per pair, and the runs.
\<close>

theorem session_creation_validates:
  "safeParse b =
     (case request_of b of None \<Rightarrow> None | Some r \<Rightarrow> if within_bounds r then Some r else None) \<and>
   request_of (body_of r) = Some r \<and>
   (safeParse b = None \<longrightarrow>
      POST first_issue sid rid t (Some b) store =
        (HttpResponse 400 (JObj [(''error'', JStr (first_issue b))]), store)) \<and>
   (\<forall>d. safeParse b = Some d \<longrightarrow>
      fst (POST first_issue sid rid t (Some b) store) =
        HttpResponse 200
          (JObj [(''sessionId'', JStr sid),
                 (''runIds'', JArr (map (\<lambda>i. JStr (rid i)) [0..<length (models d)]))]) \<and>
      (\<exists>session.
         sessions (snd (POST first_issue sid rid t (Some b) store)) =
           (sessions store)(sid \<mapsto> session) \<and>
         id_session session = sid \<and>
         prompt_session session = prompt d \<and>
         map (\<lambda>x. (provider x, model x)) (runs_session session) = models d \<and>
         map id_run (runs_session session) = map rid [0..<length (models d)] \<and>
         list_all (\<lambda>x. status x = Queued \<and> sessionId x = sid) (runs_session session) \<and>
         dom (runs (snd (POST first_issue sid rid t (Some b) store))) =
           dom (runs store) \<union> rid ` {0..<length (models d)}))"
proof (intro conjI allI impI)
  show "safeParse b =
     (case request_of b of None \<Rightarrow> None | Some r \<Rightarrow> if within_bounds r then Some r else None)"
    by (rule safeParse_request_of)
next
  show "request_of (body_of r) = Some r"
    by (rule request_of_body_of)
next
  assume "safeParse b = None"
  then show "POST first_issue sid rid t (Some b) store =
        (HttpResponse 400 (JObj [(''error'', JStr (first_issue b))]), store)"
    by (simp add: POST_def)
next
  fix d assume d: "safeParse b = Some d"
  let ?rs = "map (\<lambda>(i, modelConfig).
              \<lparr>id_run = rid i, sessionId = sid, provider = fst modelConfig,
               model = snd modelConfig, status = Queued, createdAt = t, updatedAt = t\<rparr>)
         (enumerate 0 (models d))"
  let ?session = "\<lparr>id_session = sid, prompt_session = prompt d, runs_session = ?rs,
                      createdAt_session = t, updatedAt_session = t\<rparr>"
  have post: "POST first_issue sid rid t (Some b) store =
      (HttpResponse 200
         (JObj [(''sessionId'', JStr sid), (''runIds'', JArr (map (\<lambda>r. JStr (id_run r)) ?rs))]),
       store\<lparr>runs := fold (\<lambda>r m. m(id_run r \<mapsto> r)) ?rs (runs store),
             sessions := (sessions store)(sid \<mapsto> ?session)\<rparr>)"
    using d by (simp add: POST_def createSession_def Let_def)
  have ids: "map id_run ?rs = map rid [0..<length (models d)]"
    using createSession_ids [of rid sid t 0 "models d"] by simp
  have "map (\<lambda>r. JStr (id_run r)) ?rs = map JStr (map id_run ?rs)"
    by (simp only: map_map comp_def)
  also have "\<dots> = map JStr (map rid [0..<length (models d)])"
    by (simp only: ids)
  also have "\<dots> = map (\<lambda>i. JStr (rid i)) [0..<length (models d)]"
    by (simp only: map_map comp_def)
  finally have runIds:
    "map (\<lambda>r. JStr (id_run r)) ?rs = map (\<lambda>i. JStr (rid i)) [0..<length (models d)]" .
  show "fst (POST first_issue sid rid t (Some b) store) =
        HttpResponse 200
          (JObj [(''sessionId'', JStr sid),
                 (''runIds'', JArr (map (\<lambda>i. JStr (rid i)) [0..<length (models d)]))])"
    by (simp only: post fst_conv runIds)
  have q: "list_all (\<lambda>x. status x = Queued \<and> sessionId x = sid) ?rs"
    by (simp add: list_all_iff split: prod.splits)
  have "dom (fold (\<lambda>r m. m(id_run r \<mapsto> r)) ?rs (runs store)) =
      dom (runs store) \<union> set (map id_run ?rs)"
    by (simp only: fold_set_dom set_map)
  then have dm: "dom (fold (\<lambda>r m. m(id_run r \<mapsto> r)) ?rs (runs store)) =
      dom (runs store) \<union> rid ` {0..<length (models d)}"
    by (simp only: ids set_map set_upt)
  show "\<exists>session.
         sessions (snd (POST first_issue sid rid t (Some b) store)) =
           (sessions store)(sid \<mapsto> session) \<and>
         id_session session = sid \<and>
         prompt_session session = prompt d \<and>
         map (\<lambda>x. (provider x, model x)) (runs_session session) = models d \<and>
         map id_run (runs_session session) = map rid [0..<length (models d)] \<and>
         list_all (\<lambda>x. status x = Queued \<and> sessionId x = sid) (runs_session session) \<and>
         dom (runs (snd (POST first_issue sid rid t (Some b) store))) =
           dom (runs store) \<union> rid ` {0..<length (models d)}"
    using ids q dm createSession_runs [of rid sid t 0 "models d"]
    by (intro exI [of _ ?session]) (simp add: post)
qed

text \<open>
  A body with one pair and a long enough prompt is accepted and stored; a short prompt, no
  pair, a provider that is not recognised, seven pairs and a body without pairs are each
  refused with HTTP 400, the store unchanged.
\<close>

theorem session_creation_validates_witness:
  "fst (POST (\<lambda>b. ''Invalid input'') ''s1'' (\<lambda>i. ''r1'') 7
     (Some (body_of \<lparr>prompt = ''build a landing page'', models = [(''openai'', ''gpt-4o'')]\<rparr>))
     \<lparr>sessions = Map.empty, runs = Map.empty\<rparr>) =
     HttpResponse 200 (JObj [(''sessionId'', JStr ''s1''), (''runIds'', JArr [JStr ''r1''])]) \<and>
   dom (runs (snd (POST (\<lambda>b. ''Invalid input'') ''s1'' (\<lambda>i. ''r1'') 7
     (Some (body_of \<lparr>prompt = ''build a landing page'', models = [(''openai'', ''gpt-4o'')]\<rparr>))
     \<lparr>sessions = Map.empty, runs = Map.empty\<rparr>))) = {''r1''} \<and>
   POST (\<lambda>b. ''Invalid input'') ''s1'' (\<lambda>i. ''r1'') 7
     (Some (body_of \<lparr>prompt = ''too short'', models = [(''openai'', ''gpt-4o'')]\<rparr>))
     \<lparr>sessions = Map.empty, runs = Map.empty\<rparr> =
     (HttpResponse 400 (JObj [(''error'', JStr ''Invalid input'')]),
      \<lparr>sessions = Map.empty, runs = Map.empty\<rparr>) \<and>
   safeParse (body_of \<lparr>prompt = ''build a landing page'', models = []\<rparr>) = None \<and>
   safeParse (body_of \<lparr>prompt = ''build a landing page'', models = [(''mistral'', ''large'')]\<rparr>) = None \<and>
   safeParse (body_of \<lparr>prompt = ''build a landing page'',
                        models = replicate 7 (''openai'', ''gpt-4o'')\<rparr>) = None \<and>
   safeParse (JObj [(''prompt'', JStr ''build a landing page'')]) = None"
proof -
  let ?ok = "\<lparr>prompt = ''build a landing page'', models = [(''openai'', ''gpt-4o'')]\<rparr>"
  let ?short = "\<lparr>prompt = ''too short'', models = [(''openai'', ''gpt-4o'')]\<rparr>"
  let ?none = "\<lparr>prompt = ''build a landing page'', models = []\<rparr>"
  let ?other = "\<lparr>prompt = ''build a landing page'', models = [(''mistral'', ''large'')]\<rparr>"
  let ?seven = "\<lparr>prompt = ''build a landing page'', models = replicate 7 (''openai'', ''gpt-4o'')\<rparr>"
  let ?fi = "\<lambda>b::json. ''Invalid input''"
  let ?rid = "\<lambda>i::nat. ''r1''"
  let ?store = "\<lparr>sessions = Map.empty, runs = Map.empty\<rparr>"
  note parsed = session_creation_validates [THEN conjunct1]
  note carried = session_creation_validates [THEN conjunct2, THEN conjunct1]
  note rejected = session_creation_validates [THEN conjunct2, THEN conjunct2, THEN conjunct1, rule_format]
  note accepted = session_creation_validates [THEN conjunct2, THEN conjunct2, THEN conjunct2, rule_format]
  have a: "safeParse (body_of ?ok) = Some ?ok"
    using parsed [of "body_of ?ok"] carried [of ?ok] by (simp add: within_bounds_def)
  have b: "safeParse (body_of ?short) = None"
    using parsed [of "body_of ?short"] carried [of ?short] by (simp add: within_bounds_def)
  have c: "safeParse (body_of ?none) = None"
    using parsed [of "body_of ?none"] carried [of ?none] by (simp add: within_bounds_def)
  have d: "safeParse (body_of ?other) = None"
    using parsed [of "body_of ?other"] carried [of ?other] by (simp add: within_bounds_def)
  have e: "safeParse (body_of ?seven) = None"
    using parsed [of "body_of ?seven"] carried [of ?seven] by (simp add: within_bounds_def)
  have f: "safeParse (JObj [(''prompt'', JStr ''build a landing page'')]) = None"
    using parsed [of "JObj [(''prompt'', JStr ''build a landing page'')]"]
    by (simp add: get_member_def)
  have g: "fst (POST ?fi ''s1'' ?rid 7 (Some (body_of ?ok)) ?store) =
     HttpResponse 200 (JObj [(''sessionId'', JStr ''s1''), (''runIds'', JArr [JStr ''r1''])])"
    using accepted [OF a, of ?fi "''s1''" ?rid 7 ?store, THEN conjunct1] by simp
  have "\<exists>session. dom (runs (snd (POST ?fi ''s1'' ?rid 7 (Some (body_of ?ok)) ?store))) =
           dom (runs ?store) \<union> ?rid ` {0..<length (models ?ok)}"
    using accepted [OF a, of ?fi "''s1''" ?rid 7 ?store, THEN conjunct2] by blast
  then have h: "dom (runs (snd (POST ?fi ''s1'' ?rid 7 (Some (body_of ?ok)) ?store))) = {''r1''}"
    by simp
  have i: "POST ?fi ''s1'' ?rid 7 (Some (body_of ?short)) ?store =
     (HttpResponse 400 (JObj [(''error'', JStr ''Invalid input'')]), ?store)"
    using rejected [OF b, of ?fi "''s1''" ?rid 7 ?store] by simp
  from g h i c d e f show ?thesis
    by (intro conjI)
qed


section \<open>Paths of the overlay\<close>

lemma split_on_not_Nil [simp]: "split_on c xs \<noteq> []"
  by (induction xs) (auto split: list.splits)
















section \<open>Effects of the kill and of the failure path\<close>

lemma rm_rf_inside:
  "inside d q \<Longrightarrow> \<not> keeps q \<Longrightarrow> rm_rf keeps d fs q = None"
  by (simp add: rm_rf_def inside_def)

lemma killRun_tracked:
  assumes "containers st runId = Some entry" "removeError w = None"
  shows "fst (DockerRuntime_killRun w runId st) = Inr ()"
    and "containers (snd (DockerRuntime_killRun w runId st)) = (containers st)(runId := None)"
    and "docker (snd (DockerRuntime_killRun w runId st)) (container entry) = None"
    and "word_plain (workspaceBase w @ ''/'' @ runId) \<Longrightarrow> \<not> rmKeeps w q \<Longrightarrow>
         inside (normalize (workspaceBase w @ ''/'' @ runId)) q \<Longrightarrow>
           disk (snd (DockerRuntime_killRun w runId st)) q = None"
  using assms
  by (simp_all add: DockerRuntime_killRun_def Let_def cleanupWorkspace_def remove_container_def
      rm_rf_inside)

lemma killRun_containers_None:
  "removeError w = None \<Longrightarrow> containers (snd (DockerRuntime_killRun w runId st)) runId = None"
  by (cases "containers st runId") (simp_all add: killRun_untracked killRun_tracked(2))

text \<open>The state in which the \<open>catch\<close> block ends, by what it started from.\<close>

lemma processRun_catch_effects:
  fixes w run e st
  defines "fin \<equiv> last (processRun_catch w run e st)"
  shows "removeError w = None \<Longrightarrow> containers fin (id_run run) = None"
    and "removeError w = None \<Longrightarrow> containers st (id_run run) = Some entry \<Longrightarrow>
           docker fin (container entry) = None"
    and "removeError w = None \<Longrightarrow> containers st (id_run run) = Some entry \<Longrightarrow>
           word_plain (workspaceBase w @ ''/'' @ id_run run) \<Longrightarrow> \<not> rmKeeps w q \<Longrightarrow>
           inside (normalize (workspaceBase w @ ''/'' @ id_run run)) q \<Longrightarrow> disk fin q = None"
proof -
  let ?st1 = "updateRun (id_run run)
          (no_update\<lparr>status_upd := Some Failed, error_upd := Some (message e),
             logsError_upd := Some (stack e), completedAt_upd := Some (now w)\<rparr>) st"
  have fin: "fin = snd (DockerRuntime_killRun w (id_run run) ?st1)"
    unfolding fin_def by (rule processRun_catch_last)
  show "removeError w = None \<Longrightarrow> containers fin (id_run run) = None"
    unfolding fin by (rule killRun_containers_None)
  show "removeError w = None \<Longrightarrow> containers st (id_run run) = Some entry \<Longrightarrow>
           docker fin (container entry) = None"
    unfolding fin by (rule killRun_tracked(3)) simp_all
  show "removeError w = None \<Longrightarrow> containers st (id_run run) = Some entry \<Longrightarrow>
           word_plain (workspaceBase w @ ''/'' @ id_run run) \<Longrightarrow> \<not> rmKeeps w q \<Longrightarrow>
           inside (normalize (workspaceBase w @ ''/'' @ id_run run)) q \<Longrightarrow> disk fin q = None"
    unfolding fin by (rule killRun_tracked(4)) simp_all
qed




section \<open>The concrete runs\<close>

text \<open>The run of \<open>good_world\<close> from the initial state.\<close>

lemma good_run:
  shows "reported status_upd (processRun good_world run1 p initial) ''r1'' = Some Ready"
    and "registry (processRun good_world run1 p initial) ''r1'' = Some ''http://localhost:32768''"
    and "containers (processRun good_world run1 p initial) ''r1'' =
           Some \<lparr>container = ''run-r1'', ip = ''172.18.0.2'', hostPort = 32768\<rparr>"
    and "reported status_upd (processRun_steps good_world run1 p initial ! 5) ''r1'' = Some Healthy"
    and "registry (processRun_steps good_world run1 p initial ! 5) ''r1'' =
           Some ''http://localhost:32768''"
    and "created (processRun good_world run1 p initial) =
           [build_options ''r1'' ''/w/r1'', run_options ''r1'' ''/w/r1'']"
    and "docker (processRun good_world run1 p initial) ''run-r1'' =
           Some (run_options ''r1'' ''/w/r1'', Running)"
    and "disk (processRun good_world run1 p initial) (FsPath True [''w'', ''r1'', ''app'', ''page.tsx'']) =
           Some (File ''export default function Page() { return null }'')"
proof -
  let ?r = "\<lparr>code = page_only, model_used = ''openai/gpt-4o''\<rparr>"
  let ?c = "\<lparr>id_dc = ''run-r1'', runId_dc = ''r1'', port_dc = 32768,
            internalUrl_dc = ''http://localhost:32768'', status_dc = running_c\<rparr>"
  let ?st3 = "snd (createRun good_world ''r1'' page_only (at_createRun good_world run1 initial))"
  have g: "generated good_world = Inr ?r"
    by (simp add: good_world_def)
  have v: "validateCode (code ?r) = Inr ()"
    by (simp add: validateCode_page_only)
  have c: "createRun good_world (id_run run1) (code ?r) (at_createRun good_world run1 initial) =
     (Inr ?c, snd (createRun good_world ''r1'' page_only (at_createRun good_world run1 initial)))"
    using good_createRun_at [of good_world] by (simp add: run1_def)
  have h: "fst (waitForHealthyUrl (probe good_world) (internalUrl_dc ?c) 30)"
    by (rule good_world_healthy)
  have id: "id_run run1 = ''r1''"
    by (simp add: run1_def)
  have w: "IPAddress good_world = ''172.18.0.2''" "inspectedPort good_world = 32768"
    by (simp_all add: good_world_def)
  note facts = processRun_healthy_reported [OF g v c h, of p, unfolded id]
  show "reported status_upd (processRun good_world run1 p initial) ''r1'' = Some Ready"
    by (rule facts(1))
  show "registry (processRun good_world run1 p initial) ''r1'' = Some ''http://localhost:32768''"
    using facts(3) by simp
  show "containers (processRun good_world run1 p initial) ''r1'' =
           Some \<lparr>container = ''run-r1'', ip = ''172.18.0.2'', hostPort = 32768\<rparr>"
    using facts(4) by (simp add: w)
  show "reported status_upd (processRun_steps good_world run1 p initial ! 5) ''r1'' = Some Healthy"
    by (rule facts(5))
  show "registry (processRun_steps good_world run1 p initial ! 5) ''r1'' =
           Some ''http://localhost:32768''"
    using facts(6) by simp
  have fin: "created (processRun good_world run1 p initial) = created ?st3"
    "docker (processRun good_world run1 p initial) = docker ?st3"
    "disk (processRun good_world run1 p initial) = disk ?st3"
    by (simp_all add: processRun_def processRun_steps_healthy [OF g v c h] Let_def)
  have st: "disk (at_createRun good_world run1 initial) = Map.empty"
    "docker (at_createRun good_world run1 initial) = Map.empty"
    "created (at_createRun good_world run1 initial) = []"
    by (simp_all add: at_createRun_def initial_def)
  have gw: "good_world\<lparr>probe := probe good_world\<rparr> = good_world"
    by simp
  note state = good_createRun_state [OF st, of "probe good_world", unfolded gw]
  show "created (processRun good_world run1 p initial) =
           [build_options ''r1'' ''/w/r1'', run_options ''r1'' ''/w/r1'']"
    unfolding fin by (rule state(1))
  show "docker (processRun good_world run1 p initial) ''run-r1'' =
           Some (run_options ''r1'' ''/w/r1'', Running)"
    unfolding fin by (rule state(2))
  show "disk (processRun good_world run1 p initial) (FsPath True [''w'', ''r1'', ''app'', ''page.tsx'']) =
           Some (File ''export default function Page() { return null }'')"
    unfolding fin by (rule state(3))
qed

text \<open>
  The run started again (\<^verbatim>\<open>POST /api/runs/:runId/start\<close>) while it is \<open>ready\<close>, with a
  code generation call that fails this time.
\<close>

lemma restarted_run:
  fixes p q
  defines "s2 \<equiv> processRun failing_world run1 q (processRun good_world run1 p initial)"
  shows "reported status_upd s2 ''r1'' = Some Failed"
    and "registry s2 ''r1'' = Some ''http://localhost:32768''"
    and "containers s2 ''r1'' = None"
    and "reported error_upd s2 ''r1'' = Some ''No text response from OpenCode''"
    and "reported completedAt_upd s2 ''r1'' = Some 7"
    and "docker s2 ''run-r1'' = None"
    and "disk s2 (FsPath True [''w'', ''r1'', ''app'', ''page.tsx'']) = None"
proof -
  let ?s1 = "processRun good_world run1 p initial"
  let ?e = "Error ''No text response from OpenCode''"
  let ?st1 = "updateRunStatus (id_run run1) Generating
      (no_update\<lparr>startedAt_upd := Some (now failing_world)\<rparr>) ?s1"
  let ?entry = "\<lparr>container = ''run-r1'', ip = ''172.18.0.2'', hostPort = 32768\<rparr>"
  have g: "generated failing_world = Inl ?e"
    by (simp add: failing_world_def)
  have id: "id_run run1 = ''r1''"
    by (simp add: run1_def)
  have s2: "s2 = last (processRun_catch failing_world run1 ?e ?st1)"
    unfolding s2_def by (rule processRun_generation_fails [OF g])
  show "reported status_upd s2 ''r1'' = Some Failed"
    unfolding s2 using processRun_catch_reported(1) [of failing_world run1 ?e ?st1]
    by (simp only: id)
  show "reported error_upd s2 ''r1'' = Some ''No text response from OpenCode''"
    unfolding s2 using processRun_catch_reported(2) [of failing_world run1 ?e ?st1]
    by (simp only: id message.simps)
  have "now failing_world = 7"
    by (simp add: failing_world_def good_world_def)
  then show "reported completedAt_upd s2 ''r1'' = Some 7"
    unfolding s2 using processRun_catch_reported(3) [of failing_world run1 ?e ?st1]
    by (simp only: id)
  have "registry s2 = registry ?st1"
    unfolding s2 by (rule processRun_catch_reported(4))
  then show "registry s2 ''r1'' = Some ''http://localhost:32768''"
    using good_run(2) [of p] by simp
  have rm: "removeError failing_world = None"
    by (simp add: failing_world_def good_world_def)
  then have "containers s2 (id_run run1) = None"
    unfolding s2 by (rule processRun_catch_effects(1))
  then show "containers s2 ''r1'' = None"
    by (simp only: id)
  have tracked: "containers ?st1 (id_run run1) = Some ?entry"
    using good_run(3) [of p] by (simp add: id)
  have "docker s2 (container ?entry) = None"
    unfolding s2 by (rule processRun_catch_effects(2) [OF rm tracked])
  then show "docker s2 ''run-r1'' = None"
    by simp
  have plain: "word_plain (workspaceBase failing_world @ ''/'' @ id_run run1)"
    by (simp add: failing_world_def good_world_def run1_def word_plain_def)
  have kept: "\<not> rmKeeps failing_world (FsPath True [''w'', ''r1'', ''app'', ''page.tsx''])"
    by (simp add: failing_world_def good_world_def)
  have ins: "inside (normalize (workspaceBase failing_world @ ''/'' @ id_run run1))
      (FsPath True [''w'', ''r1'', ''app'', ''page.tsx''])"
    by (simp add: failing_world_def good_world_def run1_def normalize_def inside_def)
  show "disk s2 (FsPath True [''w'', ''r1'', ''app'', ''page.tsx'']) = None"
    unfolding s2 by (rule processRun_catch_effects(3) [OF rm tracked plain kept ins])
qed

lemma processRun_steps_not_Nil [simp]:
  "processRun_steps w run p st \<noteq> []"
  by (simp add: processRun_steps_def Let_def split: sum.splits prod.splits)

lemma delete_run_untracked:
  "containers st runId = None \<Longrightarrow>
   delete_run w runId st =
     (HttpResponse 200 (JObj [(''success'', JBool True)]),
      (updateRunStatus runId Terminated no_update st)\<lparr>registry := unregister runId (registry st)\<rparr>)"
  by (simp add: delete_run_def RunManager_killRun_def killRun_untracked)

lemma delete_run_tracked:
  assumes "containers st runId = Some entry" "removeError w = None"
  shows "statusCode (fst (delete_run w runId st)) = 200"
    and "containers (snd (delete_run w runId st)) runId = None"
proof -
  obtain s1 where k: "DockerRuntime_killRun w runId st = (Inr (), s1)"
    using killRun_tracked(1) [OF assms] by (metis prod.collapse)
  have "containers s1 runId = None"
    using killRun_tracked(2) [OF assms] k by simp
  with k show "statusCode (fst (delete_run w runId st)) = 200"
    and "containers (snd (delete_run w runId st)) runId = None"
    by (simp_all add: delete_run_def RunManager_killRun_def)
qed

text \<open>The run of \<open>unhealthy_world\<close> from the initial state.\<close>

lemma unhealthy_run:
  shows "reported status_upd (processRun unhealthy_world run1 p initial) ''r1'' = Some Failed"
    and "reported error_upd (processRun unhealthy_world run1 p initial) ''r1'' =
           Some ''Server failed health check after 30 attempts''"
    and "createRun unhealthy_world (id_run run1)
           (code \<lparr>code = page_only, model_used = ''openai/gpt-4o''\<rparr>)
           (at_createRun unhealthy_world run1 initial) =
         (Inr \<lparr>id_dc = ''run-r1'', runId_dc = ''r1'', port_dc = 32768,
                internalUrl_dc = ''http://localhost:32768'', status_dc = running_c\<rparr>,
          snd (createRun unhealthy_world ''r1'' page_only (at_createRun unhealthy_world run1 initial)))"
    and "\<not> fst (waitForHealthyUrl (probe unhealthy_world) ''http://localhost:32768'' 30)"
proof -
  let ?r = "\<lparr>code = page_only, model_used = ''openai/gpt-4o''\<rparr>"
  let ?c = "\<lparr>id_dc = ''run-r1'', runId_dc = ''r1'', port_dc = 32768,
            internalUrl_dc = ''http://localhost:32768'', status_dc = running_c\<rparr>"
  let ?e = "Error ''Server failed health check after 30 attempts''"
  have g: "generated unhealthy_world = Inr ?r"
    by (simp add: unhealthy_world_def good_world_def)
  have v: "validateCode (code ?r) = Inr ()"
    by (simp add: validateCode_page_only)
  show c: "createRun unhealthy_world (id_run run1) (code ?r) (at_createRun unhealthy_world run1 initial) =
     (Inr ?c, snd (createRun unhealthy_world ''r1'' page_only (at_createRun unhealthy_world run1 initial)))"
    using good_createRun_at [of unhealthy_world] by (simp add: run1_def)
  have "\<forall>j. 0 \<le> j \<and> j < 30 \<longrightarrow> \<not> ok (probe unhealthy_world j)"
    by (simp add: unhealthy_world_def)
  then have h: "\<not> fst (waitForHealthyUrl (probe unhealthy_world) (internalUrl_dc ?c) 30)"
    by (simp add: waitForHealthyUrl_def waitForHealthyUrl_loop_miss)
  then show "\<not> fst (waitForHealthyUrl (probe unhealthy_world) ''http://localhost:32768'' 30)"
    by simp
  have id: "id_run run1 = ''r1''"
    by (simp add: run1_def)
  note fin = processRun_unhealthy [OF g v c h, of p]
  show "reported status_upd (processRun unhealthy_world run1 p initial) ''r1'' = Some Failed"
    unfolding fin using processRun_catch_reported(1) [of unhealthy_world run1 ?e] by (simp only: id)
  show "reported error_upd (processRun unhealthy_world run1 p initial) ''r1'' =
           Some ''Server failed health check after 30 attempts''"
    unfolding fin using processRun_catch_reported(2) [of unhealthy_world run1 ?e]
    by (simp only: id message.simps)
qed


section \<open>Limits of the containers\<close>

lemma buildPhase_created:
  "created (snd (buildPhase w runId dir st)) =
     created st @ (if docker st (''build-'' @ runId) = None then [build_options runId dir] else [])"
  by (simp add: buildPhase_def createContainer_def build_options_def Let_def)

lemma runPhase_created:
  "created (snd (runPhase w runId dir st)) =
     created st @ (if docker st (''run-'' @ runId) = None then [run_options runId dir] else [])"
  by (simp add: runPhase_def createContainer_def run_options_def Let_def)

lemma createRun_created:
  "\<exists>new. created (snd (createRun w runId c st)) = created st @ new \<and>
     set new \<subseteq> {build_options runId (workspaceBase w @ ''/'' @ runId),
                 run_options runId (workspaceBase w @ ''/'' @ runId)}"
proof -
  let ?dir = "workspaceBase w @ ''/'' @ runId"
  obtain r1 fs1 where p: "prepareWorkspace w ?dir c (disk st) = (r1, fs1)"
    by (cases "prepareWorkspace w ?dir c (disk st)")
  obtain r2 st2 where b: "buildPhase w runId ?dir (st\<lparr>disk := fs1\<rparr>) = (r2, st2)"
    by (cases "buildPhase w runId ?dir (st\<lparr>disk := fs1\<rparr>)")
  obtain r3 st3 where r: "runPhase w runId ?dir st2 = (r3, st3)"
    by (cases "runPhase w runId ?dir st2")
  have b': "created st2 =
      created st @ (if docker st (''build-'' @ runId) = None then [build_options runId ?dir] else [])"
    using arg_cong [OF b [symmetric], of "\<lambda>x. created (snd x)"] by (simp add: buildPhase_created)
  have r': "created st3 =
      created st2 @ (if docker st2 (''run-'' @ runId) = None then [run_options runId ?dir] else [])"
    using arg_cong [OF r [symmetric], of "\<lambda>x. created (snd x)"] by (simp add: runPhase_created)
  have "created (snd (createRun w runId c st)) = created st \<or>
        created (snd (createRun w runId c st)) = created st2 \<or>
        created (snd (createRun w runId c st)) = created st3"
    using p b r by (auto simp: createRun_def Let_def split: sum.splits)
  then consider "created (snd (createRun w runId c st)) = created st @ []"
    | "created (snd (createRun w runId c st)) = created st @ [build_options runId ?dir]"
    | "created (snd (createRun w runId c st)) = created st @ [run_options runId ?dir]"
    | "created (snd (createRun w runId c st)) =
         created st @ [build_options runId ?dir, run_options runId ?dir]"
    using b' r' by (auto split: if_splits)
  then show ?thesis
  proof cases
    case 1
    then show ?thesis by (intro exI [of _ "[]"]) simp
  next
    case 2
    then show ?thesis by (intro exI [of _ "[build_options runId ?dir]"]) simp
  next
    case 3
    then show ?thesis by (intro exI [of _ "[run_options runId ?dir]"]) simp
  next
    case 4
    then show ?thesis
      by (intro exI [of _ "[build_options runId ?dir, run_options runId ?dir]"]) simp
  qed
qed

lemma processRun_catch_created:
  "created (last (processRun_catch w run e st)) = created st"
  by (simp add: processRun_catch_last)

lemma processRun_created:
  "\<exists>new. created (processRun w run p st) = created st @ new \<and>
     set new \<subseteq> {build_options (id_run run) (workspaceBase w @ ''/'' @ id_run run),
                 run_options (id_run run) (workspaceBase w @ ''/'' @ id_run run)}"
proof -
  let ?new = "\<lambda>s. \<exists>new. created s = created st @ new \<and>
     set new \<subseteq> {build_options (id_run run) (workspaceBase w @ ''/'' @ id_run run),
                 run_options (id_run run) (workspaceBase w @ ''/'' @ id_run run)}"
  have same: "created s = created st \<Longrightarrow> ?new s" for s :: Orchestrator
    by (intro exI [of _ "[]"]) simp
  show ?thesis
  proof (cases "generated w")
    case (Inl e)
    have "created (processRun w run p st) = created st"
      by (simp add: processRun_generation_fails [OF Inl] processRun_catch_created)
    then show ?thesis by (rule same)
  next
    case (Inr r)
    show ?thesis
    proof (cases "validateCode (code r)")
      case (Inl e)
      have "created (processRun w run p st) = created st"
        by (simp add: processRun_validation_fails [OF Inr Inl] processRun_catch_created)
      then show ?thesis by (rule same)
    next
      case valid: (Inr u)
      then have v: "validateCode (code r) = Inr ()" by simp
      obtain res st3 where c: "createRun w (id_run run) (code r) (at_createRun w run st) = (res, st3)"
        by (cases "createRun w (id_run run) (code r) (at_createRun w run st)")
      have "created (at_createRun w run st) = created st"
        by (simp add: at_createRun_def)
      then have st3: "?new st3"
        using createRun_created [of w "id_run run" "code r" "at_createRun w run st"] c by simp
      have "created (processRun w run p st) = created st3"
      proof (cases res)
        case (Inl e)
        with c have c': "createRun w (id_run run) (code r) (at_createRun w run st) = (Inl e, st3)"
          by simp
        show ?thesis
          by (simp add: processRun_createRun_fails [OF Inr v c'] processRun_catch_created)
      next
        case (Inr dc)
        with c have c': "createRun w (id_run run) (code r) (at_createRun w run st) = (Inr dc, st3)"
          by simp
        show ?thesis
        proof (cases "fst (waitForHealthyUrl (probe w) (internalUrl_dc dc) 30)")
          case False
          show ?thesis
            by (simp add: processRun_unhealthy [OF \<open>generated w = Inr r\<close> v c' False]
                processRun_catch_created)
        next
          case True
          show ?thesis
            by (simp add: processRun_def
                processRun_steps_healthy [OF \<open>generated w = Inr r\<close> v c' True] Let_def)
        qed
      qed
      with st3 show ?thesis by simp
    qed
  qed
qed

text \<open>
  Claim C6, as amended. Every container \<open>buildPhase\<close> creates is named after the run and
  created with 4 GiB of memory, 2 CPU cores, bridge networking and a read-write mount of
  the workspace, and with no limit on the number of processes; it creates one unless the
  name is taken. Every container \<open>runPhase\<close> creates is created with 2 GiB of memory, 1 CPU
  core, a limit of 512 processes, the network \<open>llm-arena-network\<close> as its only network, a
  read-only mount of the workspace, all capabilities dropped and \<open>no-new-privileges\<close>; it
  creates one unless the name is taken, and these are the options of the container it
  leaves running. Every container created while a run is processed is one of the two.
\<close>

theorem container_limits:
  "(\<forall>opts \<in> set (drop (length (created st)) (created (snd (buildPhase w runId dir st)))).
      name opts = ''build-'' @ runId \<and>
      Memory (HostConfig opts) = 4 * 2 ^ 30 \<and>
      NanoCpus (HostConfig opts) = 2 * 10 ^ 9 \<and>
      PidsLimit (HostConfig opts) = None \<and>
      NetworkMode (HostConfig opts) = ''bridge'' \<and>
      Binds (HostConfig opts) = [dir @ '':/workspace:rw'']) \<and>
   (docker st (''build-'' @ runId) = None \<longrightarrow>
      length (created (snd (buildPhase w runId dir st))) = Suc (length (created st))) \<and>
   (\<forall>opts \<in> set (drop (length (created st)) (created (snd (runPhase w runId dir st)))).
      name opts = ''run-'' @ runId \<and>
      Memory (HostConfig opts) = 2 * 2 ^ 30 \<and>
      NanoCpus (HostConfig opts) = 1 * 10 ^ 9 \<and>
      PidsLimit (HostConfig opts) = Some 512 \<and>
      NetworkMode (HostConfig opts) = ''llm-arena-network'' \<and>
      Binds (HostConfig opts) = [dir @ '':/workspace:ro''] \<and>
      CapDrop (HostConfig opts) = Some [''ALL''] \<and>
      SecurityOpt (HostConfig opts) = Some [''no-new-privileges:true'']) \<and>
   (docker st (''run-'' @ runId) = None \<longrightarrow>
      length (created (snd (runPhase w runId dir st))) = Suc (length (created st))) \<and>
   (\<forall>entry st'. runPhase w runId dir st = (Inr entry, st') \<longrightarrow>
      docker st' (container entry) = Some (run_options runId dir, Running)) \<and>
   (\<forall>opts \<in> set (drop (length (created st)) (created (processRun w run p st))).
      (name opts = ''build-'' @ id_run run \<and>
       Memory (HostConfig opts) = 4 * 2 ^ 30 \<and>
       NanoCpus (HostConfig opts) = 2 * 10 ^ 9 \<and>
       PidsLimit (HostConfig opts) = None \<and>
       NetworkMode (HostConfig opts) = ''bridge'' \<and>
       Binds (HostConfig opts) = [workspaceBase w @ ''/'' @ id_run run @ '':/workspace:rw'']) \<or>
      (name opts = ''run-'' @ id_run run \<and>
       Memory (HostConfig opts) = 2 * 2 ^ 30 \<and>
       NanoCpus (HostConfig opts) = 1 * 10 ^ 9 \<and>
       PidsLimit (HostConfig opts) = Some 512 \<and>
       NetworkMode (HostConfig opts) = ''llm-arena-network'' \<and>
       Binds (HostConfig opts) = [workspaceBase w @ ''/'' @ id_run run @ '':/workspace:ro''] \<and>
       CapDrop (HostConfig opts) = Some [''ALL''] \<and>
       SecurityOpt (HostConfig opts) = Some [''no-new-privileges:true'']))"
proof (intro conjI)
  show "\<forall>opts \<in> set (drop (length (created st)) (created (snd (buildPhase w runId dir st)))).
      name opts = ''build-'' @ runId \<and>
      Memory (HostConfig opts) = 4 * 2 ^ 30 \<and>
      NanoCpus (HostConfig opts) = 2 * 10 ^ 9 \<and>
      PidsLimit (HostConfig opts) = None \<and>
      NetworkMode (HostConfig opts) = ''bridge'' \<and>
      Binds (HostConfig opts) = [dir @ '':/workspace:rw'']"
    by (simp add: buildPhase_created build_options_def)
  show "docker st (''build-'' @ runId) = None \<longrightarrow>
      length (created (snd (buildPhase w runId dir st))) = Suc (length (created st))"
    by (simp add: buildPhase_created)
  show "\<forall>opts \<in> set (drop (length (created st)) (created (snd (runPhase w runId dir st)))).
      name opts = ''run-'' @ runId \<and>
      Memory (HostConfig opts) = 2 * 2 ^ 30 \<and>
      NanoCpus (HostConfig opts) = 1 * 10 ^ 9 \<and>
      PidsLimit (HostConfig opts) = Some 512 \<and>
      NetworkMode (HostConfig opts) = ''llm-arena-network'' \<and>
      Binds (HostConfig opts) = [dir @ '':/workspace:ro''] \<and>
      CapDrop (HostConfig opts) = Some [''ALL''] \<and>
      SecurityOpt (HostConfig opts) = Some [''no-new-privileges:true'']"
    by (simp add: runPhase_created run_options_def NETWORK_NAME_def)
  show "docker st (''run-'' @ runId) = None \<longrightarrow>
      length (created (snd (runPhase w runId dir st))) = Suc (length (created st))"
    by (simp add: runPhase_created)
  show "\<forall>entry st'. runPhase w runId dir st = (Inr entry, st') \<longrightarrow>
      docker st' (container entry) = Some (run_options runId dir, Running)"
    by (auto simp: run_options_def runPhase_def createContainer_def start_container_def Let_def
        split: if_splits)
  obtain new where new: "created (processRun w run p st) = created st @ new"
    "set new \<subseteq> {build_options (id_run run) (workspaceBase w @ ''/'' @ id_run run),
                 run_options (id_run run) (workspaceBase w @ ''/'' @ id_run run)}"
    using processRun_created [of w run p st] by blast
  show "\<forall>opts \<in> set (drop (length (created st)) (created (processRun w run p st))).
      (name opts = ''build-'' @ id_run run \<and>
       Memory (HostConfig opts) = 4 * 2 ^ 30 \<and>
       NanoCpus (HostConfig opts) = 2 * 10 ^ 9 \<and>
       PidsLimit (HostConfig opts) = None \<and>
       NetworkMode (HostConfig opts) = ''bridge'' \<and>
       Binds (HostConfig opts) = [workspaceBase w @ ''/'' @ id_run run @ '':/workspace:rw'']) \<or>
      (name opts = ''run-'' @ id_run run \<and>
       Memory (HostConfig opts) = 2 * 2 ^ 30 \<and>
       NanoCpus (HostConfig opts) = 1 * 10 ^ 9 \<and>
       PidsLimit (HostConfig opts) = Some 512 \<and>
       NetworkMode (HostConfig opts) = ''llm-arena-network'' \<and>
       Binds (HostConfig opts) = [workspaceBase w @ ''/'' @ id_run run @ '':/workspace:ro''] \<and>
       CapDrop (HostConfig opts) = Some [''ALL''] \<and>
       SecurityOpt (HostConfig opts) = Some [''no-new-privileges:true''])"
  proof
    fix opts
    assume "opts \<in> set (drop (length (created st)) (created (processRun w run p st)))"
    with new have "opts = build_options (id_run run) (workspaceBase w @ ''/'' @ id_run run) \<or>
        opts = run_options (id_run run) (workspaceBase w @ ''/'' @ id_run run)"
      by auto
    then show "(name opts = ''build-'' @ id_run run \<and>
       Memory (HostConfig opts) = 4 * 2 ^ 30 \<and>
       NanoCpus (HostConfig opts) = 2 * 10 ^ 9 \<and>
       PidsLimit (HostConfig opts) = None \<and>
       NetworkMode (HostConfig opts) = ''bridge'' \<and>
       Binds (HostConfig opts) = [workspaceBase w @ ''/'' @ id_run run @ '':/workspace:rw'']) \<or>
      (name opts = ''run-'' @ id_run run \<and>
       Memory (HostConfig opts) = 2 * 2 ^ 30 \<and>
       NanoCpus (HostConfig opts) = 1 * 10 ^ 9 \<and>
       PidsLimit (HostConfig opts) = Some 512 \<and>
       NetworkMode (HostConfig opts) = ''llm-arena-network'' \<and>
       Binds (HostConfig opts) = [workspaceBase w @ ''/'' @ id_run run @ '':/workspace:ro''] \<and>
       CapDrop (HostConfig opts) = Some [''ALL''] \<and>
       SecurityOpt (HostConfig opts) = Some [''no-new-privileges:true''])"
    proof
      assume "opts = build_options (id_run run) (workspaceBase w @ ''/'' @ id_run run)"
      then show ?thesis by (simp add: build_options_def)
    next
      assume "opts = run_options (id_run run) (workspaceBase w @ ''/'' @ id_run run)"
      then show ?thesis by (simp add: run_options_def NETWORK_NAME_def)
    qed
  qed
qed

text \<open>
  The build and the start of run \<open>r1\<close> from the initial state: each phase creates one
  container, with the limits above.
\<close>

theorem container_limits_witness:
  "created (snd (buildPhase good_world ''r1'' ''/w/r1'' initial)) = [build_options ''r1'' ''/w/r1''] \<and>
   length (created (snd (buildPhase good_world ''r1'' ''/w/r1'' initial))) = Suc (length (created initial)) \<and>
   Memory (HostConfig (build_options ''r1'' ''/w/r1'')) = 4 * 2 ^ 30 \<and>
   PidsLimit (HostConfig (build_options ''r1'' ''/w/r1'')) = None \<and>
   created (snd (runPhase good_world ''r1'' ''/w/r1'' initial)) = [run_options ''r1'' ''/w/r1''] \<and>
   length (created (snd (runPhase good_world ''r1'' ''/w/r1'' initial))) = Suc (length (created initial)) \<and>
   Memory (HostConfig (run_options ''r1'' ''/w/r1'')) = 2 * 2 ^ 30 \<and>
   PidsLimit (HostConfig (run_options ''r1'' ''/w/r1'')) = Some 512 \<and>
   docker (snd (runPhase good_world ''r1'' ''/w/r1'' initial)) ''run-r1'' =
     Some (run_options ''r1'' ''/w/r1'', Running) \<and>
   created (processRun good_world run1 ''build a landing page'' initial) =
     [build_options ''r1'' ''/w/r1'', run_options ''r1'' ''/w/r1''] \<and>
   CapDrop (HostConfig (run_options ''r1'' ''/w/r1'')) = Some [''ALL'']"
proof -
  note limits = container_limits [of initial good_world "''r1''" "''/w/r1''" run1 "''build a landing page''"]
  have b: "created (snd (buildPhase good_world ''r1'' ''/w/r1'' initial)) = [build_options ''r1'' ''/w/r1'']"
    by (simp add: buildPhase_def good_world_def initial_def createContainer_def build_options_def
        Let_def)
  have r: "runPhase good_world ''r1'' ''/w/r1'' initial =
     (Inr \<lparr>container = ''run-r1'', ip = ''172.18.0.2'', hostPort = 32768\<rparr>,
      snd (runPhase good_world ''r1'' ''/w/r1'' initial))"
    by (simp add: runPhase_def good_world_def initial_def createContainer_def run_options_def
        Let_def)
  have c: "created (snd (runPhase good_world ''r1'' ''/w/r1'' initial)) = [run_options ''r1'' ''/w/r1'']"
    by (simp add: runPhase_def good_world_def initial_def createContainer_def run_options_def
        Let_def)
  have e: "created initial = []"
    by (simp add: initial_def)
  have free: "docker initial (''build-'' @ ''r1'') = None" "docker initial (''run-'' @ ''r1'') = None"
    by (simp_all add: initial_def)
  have lb: "length (created (snd (buildPhase good_world ''r1'' ''/w/r1'' initial))) =
      Suc (length (created initial))"
    using limits free(1) by blast
  have lr: "length (created (snd (runPhase good_world ''r1'' ''/w/r1'' initial))) =
      Suc (length (created initial))"
    using limits free(2) by blast
  have "\<forall>opts \<in> set (drop (length (created initial))
            (created (snd (buildPhase good_world ''r1'' ''/w/r1'' initial)))).
          Memory (HostConfig opts) = 4 * 2 ^ 30 \<and> PidsLimit (HostConfig opts) = None"
    using limits by blast
  then have 1: "Memory (HostConfig (build_options ''r1'' ''/w/r1'')) = 4 * 2 ^ 30 \<and>
      PidsLimit (HostConfig (build_options ''r1'' ''/w/r1'')) = None"
    unfolding b e by simp
  have "\<forall>opts \<in> set (drop (length (created initial))
            (created (snd (runPhase good_world ''r1'' ''/w/r1'' initial)))).
          Memory (HostConfig opts) = 2 * 2 ^ 30 \<and> PidsLimit (HostConfig opts) = Some 512"
    using limits by blast
  then have 2: "Memory (HostConfig (run_options ''r1'' ''/w/r1'')) = 2 * 2 ^ 30 \<and>
      PidsLimit (HostConfig (run_options ''r1'' ''/w/r1'')) = Some 512"
    unfolding c e by simp
  have "\<forall>entry st'. runPhase good_world ''r1'' ''/w/r1'' initial = (Inr entry, st') \<longrightarrow>
      docker st' (container entry) = Some (run_options ''r1'' ''/w/r1'', Running)"
    using limits by blast
  with r have 3: "docker (snd (runPhase good_world ''r1'' ''/w/r1'' initial))
      (container \<lparr>container = ''run-r1'', ip = ''172.18.0.2'', hostPort = 32768\<rparr>) =
     Some (run_options ''r1'' ''/w/r1'', Running)"
    by blast
  have p: "created (processRun good_world run1 ''build a landing page'' initial) =
     [build_options ''r1'' ''/w/r1'', run_options ''r1'' ''/w/r1'']"
    by (rule good_run(6))
  have "\<forall>opts \<in> set (drop (length (created initial))
            (created (processRun good_world run1 ''build a landing page'' initial))).
          name opts = ''build-'' @ id_run run1 \<or> CapDrop (HostConfig opts) = Some [''ALL'']"
    using limits by blast
  then have "name (run_options ''r1'' ''/w/r1'') = ''build-'' @ id_run run1 \<or>
      CapDrop (HostConfig (run_options ''r1'' ''/w/r1'')) = Some [''ALL'']"
    unfolding p e by simp
  moreover have "name (run_options ''r1'' ''/w/r1'') \<noteq> ''build-'' @ id_run run1"
    by (simp add: run_options_def)
  ultimately have 4: "CapDrop (HostConfig (run_options ''r1'' ''/w/r1'')) = Some [''ALL'']"
    by blast
  from b lb 1 c lr 2 3 p 4 show ?thesis
    by simp
qed

text \<open>
  The claim as stated fails: the container \<open>buildPhase\<close> creates for run \<open>r1\<close> has no
  limit on the number of processes.
\<close>

theorem build_container_pids_counterexample:
  "created (snd (buildPhase good_world ''r1'' ''/w/r1'' initial)) = [build_options ''r1'' ''/w/r1''] \<and>
   PidsLimit (HostConfig (hd (created (snd (buildPhase good_world ''r1'' ''/w/r1'' initial))))) = None \<and>
   PidsLimit (HostConfig (hd (created (snd (buildPhase good_world ''r1'' ''/w/r1'' initial))))) \<noteq>
     Some 512"
proof -
  have b: "created (snd (buildPhase good_world ''r1'' ''/w/r1'' initial)) = [build_options ''r1'' ''/w/r1'']"
    by (simp add: buildPhase_def good_world_def initial_def createContainer_def build_options_def
        Let_def)
  show ?thesis
    unfolding b by (simp add: build_options_def)
qed


section \<open>The Gateway Registry and the status ready\<close>


lemma decimal_not_Nil [simp]: "decimal n \<noteq> []"
  by (subst decimal.simps) simp

lemma delete_run_ok:
  assumes "statusCode (fst (delete_run w runId s)) = 200"
  shows "registry (snd (delete_run w runId s)) runId = None"
    and "reported status_upd (snd (delete_run w runId s)) runId = Some Terminated"
proof -
  obtain res s1 where k: "DockerRuntime_killRun w runId s = (res, s1)"
    by (cases "DockerRuntime_killRun w runId s")
  from assms k obtain u where res: "res = Inr u"
    by (cases res) (simp_all add: delete_run_def RunManager_killRun_def)
  from k res show "registry (snd (delete_run w runId s)) runId = None"
    by (simp add: delete_run_def RunManager_killRun_def unregister_def)
  have "patches (snd (delete_run w runId s)) = patches (updateRunStatus runId Terminated no_update s1)"
    using k res by (simp add: delete_run_def RunManager_killRun_def)
  then show "reported status_upd (snd (delete_run w runId s)) runId = Some Terminated"
    using reported_status_updateRunStatus [of runId Terminated s1] by (simp add: reported_def)
qed





section \<open>Killing a run that has no container\<close>

text \<open>
  Claim C8, as amended. Killing a run whose container is not tracked (which is how a run
  is left once it has failed or has been killed) returns success, changes no tracked
  container, no container of the engine and no file, and creates no container. It reports the status
  \<open>terminated\<close> for the run, and it removes the run's entry from the Gateway Registry
  when there still is one; the registry is unchanged when the run is not registered.
\<close>

theorem kill_untracked_run:
  "containers st runId = None \<longrightarrow>
     fst (delete_run w runId st) = HttpResponse 200 (JObj [(''success'', JBool True)]) \<and>
     containers (snd (delete_run w runId st)) = containers st \<and>
     docker (snd (delete_run w runId st)) = docker st \<and>
     created (snd (delete_run w runId st)) = created st \<and>
     disk (snd (delete_run w runId st)) = disk st \<and>
     registry (snd (delete_run w runId st)) = (registry st)(runId := None) \<and>
     (registry st runId = None \<longrightarrow> registry (snd (delete_run w runId st)) = registry st) \<and>
     patches (snd (delete_run w runId st)) =
       patches st @ [(runId, no_update\<lparr>status_upd := Some Terminated\<rparr>)]"
proof
  assume "containers st runId = None"
  then have d: "delete_run w runId st =
     (HttpResponse 200 (JObj [(''success'', JBool True)]),
      (updateRunStatus runId Terminated no_update st)\<lparr>registry := unregister runId (registry st)\<rparr>)"
    by (rule delete_run_untracked)
  have "registry st runId = None \<Longrightarrow> (registry st)(runId := None) = registry st"
    by (rule ext) simp
  then show "fst (delete_run w runId st) = HttpResponse 200 (JObj [(''success'', JBool True)]) \<and>
     containers (snd (delete_run w runId st)) = containers st \<and>
     docker (snd (delete_run w runId st)) = docker st \<and>
     created (snd (delete_run w runId st)) = created st \<and>
     disk (snd (delete_run w runId st)) = disk st \<and>
     registry (snd (delete_run w runId st)) = (registry st)(runId := None) \<and>
     (registry st runId = None \<longrightarrow> registry (snd (delete_run w runId st)) = registry st) \<and>
     patches (snd (delete_run w runId st)) =
       patches st @ [(runId, no_update\<lparr>status_upd := Some Terminated\<rparr>)]"
    unfolding d by (simp add: unregister_def updateRunStatus_def no_update_def)
qed

text \<open>A run that was ready and has been killed is killed a second time.\<close>

theorem kill_untracked_run_witness:
  "fst (delete_run good_world ''r1''
     (snd (delete_run good_world ''r1'' (processRun good_world run1 ''build a landing page'' initial)))) =
     HttpResponse 200 (JObj [(''success'', JBool True)]) \<and>
   containers (snd (delete_run good_world ''r1''
     (snd (delete_run good_world ''r1'' (processRun good_world run1 ''build a landing page'' initial))))) =
     containers (snd (delete_run good_world ''r1'' (processRun good_world run1 ''build a landing page'' initial))) \<and>
   registry (snd (delete_run good_world ''r1''
     (snd (delete_run good_world ''r1'' (processRun good_world run1 ''build a landing page'' initial))))) =
     registry (snd (delete_run good_world ''r1'' (processRun good_world run1 ''build a landing page'' initial))) \<and>
   disk (snd (delete_run good_world ''r1''
     (snd (delete_run good_world ''r1'' (processRun good_world run1 ''build a landing page'' initial))))) =
     disk (snd (delete_run good_world ''r1'' (processRun good_world run1 ''build a landing page'' initial)))"
proof -
  let ?S = "processRun good_world run1 ''build a landing page'' initial"
  let ?K = "snd (delete_run good_world ''r1'' ?S)"
  have r: "removeError good_world = None"
    by (simp add: good_world_def)
  have untracked: "containers ?K ''r1'' = None"
    by (rule delete_run_tracked(2) [OF good_run(3) r])
  have "statusCode (fst (delete_run good_world ''r1'' ?S)) = 200"
    by (rule delete_run_tracked(1) [OF good_run(3) r])
  then have unregistered: "registry ?K ''r1'' = None"
    by (rule delete_run_ok(1))
  from kill_untracked_run [of ?K "''r1''" good_world] untracked unregistered show ?thesis
    by blast
qed

text \<open>
  The claim as stated fails. The run is started again while it is \<open>ready\<close> and its code
  generation fails: it ends \<open>failed\<close>, with no tracked container, and still in the
  registry. Killing it then succeeds and changes the registry.
\<close>

theorem kill_failed_run_counterexample:
  "reported status_upd (processRun failing_world run1 ''build a landing page''
      (processRun good_world run1 ''build a landing page'' initial)) ''r1'' = Some Failed \<and>
   containers (processRun failing_world run1 ''build a landing page''
      (processRun good_world run1 ''build a landing page'' initial)) ''r1'' = None \<and>
   registry (processRun failing_world run1 ''build a landing page''
      (processRun good_world run1 ''build a landing page'' initial)) ''r1'' =
     Some ''http://localhost:32768'' \<and>
   fst (delete_run good_world ''r1'' (processRun failing_world run1 ''build a landing page''
      (processRun good_world run1 ''build a landing page'' initial))) =
     HttpResponse 200 (JObj [(''success'', JBool True)]) \<and>
   registry (snd (delete_run good_world ''r1'' (processRun failing_world run1 ''build a landing page''
      (processRun good_world run1 ''build a landing page'' initial)))) ''r1'' = None"
proof -
  let ?s2 = "processRun failing_world run1 ''build a landing page''
      (processRun good_world run1 ''build a landing page'' initial)"
  have "delete_run good_world ''r1'' ?s2 =
     (HttpResponse 200 (JObj [(''success'', JBool True)]),
      (updateRunStatus ''r1'' Terminated no_update ?s2)\<lparr>registry := unregister ''r1'' (registry ?s2)\<rparr>)"
    by (rule delete_run_untracked [OF restarted_run(3)])
  then have "fst (delete_run good_world ''r1'' ?s2) = HttpResponse 200 (JObj [(''success'', JBool True)])"
    and "registry (snd (delete_run good_world ''r1'' ?s2)) ''r1'' = None"
    by (simp_all add: unregister_def)
  with restarted_run [of "''build a landing page''" "''build a landing page''"] show ?thesis
    by blast
qed


section \<open>The failure sequence\<close>

text \<open>
  \<open>runPhase\<close> throws after it has started the container when the engine reports no host
  port: the container is not recorded under the run, and neither \<open>createRun\<close> nor the
  \<open>catch\<close> block of \<open>processRun\<close> stops it.
\<close>

lemma no_host_port_leaves_container:
  "reported status_upd (processRun (good_world\<lparr>inspectedPort := 0\<rparr>) run1 p initial) ''r1'' =
     Some Failed \<and>
   containers (processRun (good_world\<lparr>inspectedPort := 0\<rparr>) run1 p initial) ''r1'' = None \<and>
   docker (processRun (good_world\<lparr>inspectedPort := 0\<rparr>) run1 p initial) ''run-r1'' =
     Some (run_options ''r1'' ''/w/r1'', Running)"
proof -
  let ?w = "good_world\<lparr>inspectedPort := 0\<rparr>"
  let ?r = "\<lparr>code = page_only, model_used = ''openai/gpt-4o''\<rparr>"
  let ?e = "Error ''Failed to get host port for container r1''"
  let ?st3 = "snd (createRun ?w ''r1'' page_only (at_createRun ?w run1 initial))"
  have id: "id_run run1 = ''r1''"
    by (simp add: run1_def)
  have g: "generated ?w = Inr ?r"
    by (simp add: good_world_def)
  have v: "validateCode (code ?r) = Inr ()"
    by (simp add: validateCode_page_only)
  have st: "disk (at_createRun ?w run1 initial) = Map.empty"
    "docker (at_createRun ?w run1 initial) = Map.empty"
    "containers (at_createRun ?w run1 initial) = Map.empty"
    by (simp_all add: at_createRun_def initial_def)
  have f: "fst (createRun ?w ''r1'' page_only (at_createRun ?w run1 initial)) = Inl ?e"
    using st
    by (simp add: createRun_def good_world_def page_only_def prepareWorkspace_def mkdir_p_def
        exec_mkdir_p_def exec_cp_r_def dq_plain_def render_def
        normalize_def cp_r_def path_join_def dirname_def writeFile_def buildPhase_def
        build_options_def createContainer_def start_container_def remove_container_def
        runPhase_def run_options_def Let_def)
  have d: "docker ?st3 ''run-r1'' = Some (run_options ''r1'' ''/w/r1'', Running)"
    using st
    by (simp add: createRun_def good_world_def page_only_def prepareWorkspace_def mkdir_p_def
        exec_mkdir_p_def exec_cp_r_def dq_plain_def render_def
        normalize_def cp_r_def path_join_def dirname_def writeFile_def buildPhase_def
        build_options_def createContainer_def start_container_def remove_container_def
        runPhase_def run_options_def Let_def)
  have c: "createRun ?w (id_run run1) (code ?r) (at_createRun ?w run1 initial) = (Inl ?e, ?st3)"
    using f by (simp add: id) (metis prod.collapse)
  have n: "containers ?st3 = Map.empty"
    using createRun_containers [OF c] st(3) by simp
  note fin = processRun_createRun_fails [OF g v c, of p]
  have k: "DockerRuntime_killRun ?w ''r1'' s = (Inr (), s)" if "containers s ''r1'' = None" for s
    using that by (rule killRun_untracked)
  have "reported status_upd (processRun ?w run1 p initial) (id_run run1) = Some Failed"
    unfolding fin by (rule processRun_catch_reported(1))
  moreover have "containers (processRun ?w run1 p initial) ''r1'' = None"
    unfolding fin processRun_catch_last id using n by (subst k) simp_all
  moreover have "docker (processRun ?w run1 p initial) ''run-r1'' =
      Some (run_options ''r1'' ''/w/r1'', Running)"
    unfolding fin processRun_catch_last id using n d by (subst k) simp_all
  ultimately show ?thesis
    by (simp add: id)
qed

text \<open>
  Claim C1. The run \<open>r1\<close> has become \<open>ready\<close>, its container running and its
  workspace written, and is started again (\<^verbatim>\<open>POST /api/runs/r1/start\<close>); this time
  its code generation fails. The failure path
  reports \<open>failed\<close> with the error message and the completion time, stops and removes the
  run's container and deletes its workspace, but it does not remove the run from the
  Gateway Registry: the run still resolves, to the URL of the container that is gone. The
  \<^verbatim>\<open>DELETE\<close> handler, on the same ready run, does remove it from the registry.
\<close>

theorem failed_run_still_registered:
  "reported status_upd (processRun good_world run1 ''build a landing page'' initial) ''r1'' =
     Some Ready \<and>
   docker (processRun good_world run1 ''build a landing page'' initial) ''run-r1'' =
     Some (run_options ''r1'' ''/w/r1'', Running) \<and>
   disk (processRun good_world run1 ''build a landing page'' initial)
     (FsPath True [''w'', ''r1'', ''app'', ''page.tsx'']) =
     Some (File ''export default function Page() { return null }'') \<and>
   reported status_upd (processRun failing_world run1 ''build a landing page''
      (processRun good_world run1 ''build a landing page'' initial)) ''r1'' = Some Failed \<and>
   reported error_upd (processRun failing_world run1 ''build a landing page''
      (processRun good_world run1 ''build a landing page'' initial)) ''r1'' =
     Some ''No text response from OpenCode'' \<and>
   reported completedAt_upd (processRun failing_world run1 ''build a landing page''
      (processRun good_world run1 ''build a landing page'' initial)) ''r1'' = Some 7 \<and>
   containers (processRun failing_world run1 ''build a landing page''
      (processRun good_world run1 ''build a landing page'' initial)) ''r1'' = None \<and>
   docker (processRun failing_world run1 ''build a landing page''
      (processRun good_world run1 ''build a landing page'' initial)) ''run-r1'' = None \<and>
   disk (processRun failing_world run1 ''build a landing page''
      (processRun good_world run1 ''build a landing page'' initial))
     (FsPath True [''w'', ''r1'', ''app'', ''page.tsx'']) = None \<and>
   registry (processRun failing_world run1 ''build a landing page''
      (processRun good_world run1 ''build a landing page'' initial)) ''r1'' =
     Some ''http://localhost:32768'' \<and>
   gateway_resolve (processRun failing_world run1 ''build a landing page''
      (processRun good_world run1 ''build a landing page'' initial)) ''r1'' =
     HttpResponse 200 (JObj [(''url'', JStr ''http://localhost:32768'')]) \<and>
   registry (snd (delete_run good_world ''r1''
      (processRun good_world run1 ''build a landing page'' initial))) ''r1'' = None"
proof -
  let ?p = "''build a landing page''"
  let ?s1 = "processRun good_world run1 ?p initial"
  let ?s2 = "processRun failing_world run1 ?p ?s1"
  note r = restarted_run [of ?p ?p]
  have g: "gateway_resolve ?s2 ''r1'' = HttpResponse 200 (JObj [(''url'', JStr ''http://localhost:32768'')])"
    using r(2) by (simp add: gateway_resolve_def resolve_def)
  have rm: "removeError good_world = None"
    by (simp add: good_world_def)
  have "statusCode (fst (delete_run good_world ''r1'' ?s1)) = 200"
    by (rule delete_run_tracked(1) [OF good_run(3) rm])
  then have d: "registry (snd (delete_run good_world ''r1'' ?s1)) ''r1'' = None"
    by (rule delete_run_ok(1))
  note before = good_run [of ?p]
  from before(1) before(7) before(8) r(1) r(4) r(5) r(3) r(6) r(7) r(2) g d show ?thesis
    by (intro conjI)
qed


end
